theory Spec2Isabelle
  imports Complex_Main
begin

section \<open>Exceptions and tensors\<close>

text \<open>
  The program is \<^verbatim>\<open>Assignment13/main_lt.py\<close>: a YOLOv3 network written as a
  LightningModule. Every Python exception the model can raise is a value of \<open>error\<close>;
  a computation that may raise returns \<open>error + 'a\<close>, with \<open>Inl\<close> for the exception.
\<close>

datatype error =
    IndexError
  | NameError string
  | RuntimeError
  | ValueError

definition bindE :: "error + 'a \<Rightarrow> ('a \<Rightarrow> error + 'b) \<Rightarrow> error + 'b" where
  "bindE m f = (case m of Inl e \<Rightarrow> Inl e | Inr v \<Rightarrow> f v)"

text \<open>
  A tensor is represented by its shape (\<^verbatim>\<open>torch.Size\<close>), the list of its dimensions.
  The floating-point contents are not represented: every operation below is the shape
  contract of the library operation the source calls, with the library's shape checks
  as errors.
\<close>

type_synonym tensor = "nat list"

text \<open>Python \<^verbatim>\<open>xs[i]\<close> for a non-negative literal index \<open>i\<close>.\<close>

definition getitem :: "'a list \<Rightarrow> nat \<Rightarrow> error + 'a" where
  "getitem xs i = (if i < length xs then Inr (xs ! i) else Inl IndexError)"

subsection \<open>Shape contracts of the library operations\<close>

text \<open>
  One spatial extent of \<^verbatim>\<open>nn.Conv2d\<close> (dilation 1): the padded input must not be
  smaller than the kernel (torch: "Kernel size can't be greater than actual input
  size"), the stride must be positive, and the output extent is
  \<open>(h + 2p - k) div s + 1\<close>.
\<close>

definition conv_out :: "nat \<Rightarrow> nat \<Rightarrow> nat \<Rightarrow> nat \<Rightarrow> error + nat" where
  "conv_out h k s p =
     (if s = 0 \<or> h + 2 * p < k then Inl RuntimeError
      else Inr ((h + 2 * p - k) div s + 1))"

text \<open>
  \<^verbatim>\<open>nn.Conv2d(cin, cout, kernel_size=k, stride=s, padding=p)\<close> applied to a tensor:
  batched 4-D input \<open>[n, c, h, w]\<close> or unbatched 3-D input \<open>[c, h, w]\<close>; the channel
  count must be \<open>cin\<close> and there must be at least one output channel (with groups = 1,
  torch expects the weight "to be at least 1 at dimension 0"). The result has \<open>cout\<close>
  channels, except that a convolution over zero input channels returns a tensor with
  zero channels.
\<close>

definition conv_channels :: "nat \<Rightarrow> nat \<Rightarrow> nat" where
  "conv_channels cin cout = (if cin = 0 then 0 else cout)"

definition nn_Conv2d :: "nat \<Rightarrow> nat \<Rightarrow> nat \<Rightarrow> nat \<Rightarrow> nat \<Rightarrow> tensor \<Rightarrow> error + tensor" where
  "nn_Conv2d cin cout k s p x =
     (case x of
        [n, c, h, w] \<Rightarrow>
          if cout = 0 \<or> c \<noteq> cin then Inl RuntimeError
          else bindE (conv_out h k s p) (\<lambda>h'.
               bindE (conv_out w k s p) (\<lambda>w'. Inr [n, conv_channels cin cout, h', w']))
      | [c, h, w] \<Rightarrow>
          if cout = 0 \<or> c \<noteq> cin then Inl RuntimeError
          else bindE (conv_out h k s p) (\<lambda>h'.
               bindE (conv_out w k s p) (\<lambda>w'. Inr [conv_channels cin cout, h', w']))
      | _ \<Rightarrow> Inl RuntimeError)"

text \<open>
  \<^verbatim>\<open>nn.BatchNorm2d(num_features)\<close>: the input must be 4-D (ValueError "expected 4D
  input" otherwise); in training mode a batch with exactly one value per channel is
  refused (ValueError "Expected more than 1 value per channel when training"); a tensor
  without elements is then returned as it is, and any other tensor must have
  \<open>num_features\<close> channels. The shape is unchanged.
\<close>

definition nn_BatchNorm2d :: "bool \<Rightarrow> nat \<Rightarrow> tensor \<Rightarrow> error + tensor" where
  "nn_BatchNorm2d training num_features x =
     (case x of
        [n, c, h, w] \<Rightarrow>
          if training \<and> n * h * w = 1 then Inl ValueError
          else if n * c * h * w = 0 then Inr x
          else if c \<noteq> num_features then Inl RuntimeError
          else Inr x
      | _ \<Rightarrow> Inl ValueError)"

text \<open>\<^verbatim>\<open>nn.LeakyReLU(0.1)\<close> is elementwise: any shape, unchanged.\<close>

definition nn_LeakyReLU :: "tensor \<Rightarrow> error + tensor" where
  "nn_LeakyReLU x = Inr x"

text \<open>
  \<^verbatim>\<open>nn.Upsample(scale_factor=f)\<close> (nearest): the input is 3-D, 4-D or 5-D with at
  least one channel, and every dimension after the first two is multiplied by \<open>f\<close>; an
  empty output extent is refused.
\<close>

definition nn_Upsample :: "nat \<Rightarrow> tensor \<Rightarrow> error + tensor" where
  "nn_Upsample f x =
     (case x of
        n # c # sp \<Rightarrow>
          if 0 < c \<and> length sp \<in> {1, 2, 3} \<and> (\<forall>d \<in> set sp. 0 < d * f)
          then Inr (n # c # map (\<lambda>d. d * f) sp)
          else Inl RuntimeError
      | _ \<Rightarrow> Inl RuntimeError)"

text \<open>
  \<^verbatim>\<open>torch.cat([a, b], dim=1)\<close>: both tensors have the same number of dimensions, at
  least two, and agree everywhere but in dimension 1, where the sizes add up.
\<close>

definition torch_cat_dim1 :: "tensor \<Rightarrow> tensor \<Rightarrow> error + tensor" where
  "torch_cat_dim1 a b =
     (case (a, b) of
        (n # c # sp, n' # c' # sp') \<Rightarrow>
          if n = n' \<and> sp = sp' then Inr (n # (c + c') # sp) else Inl RuntimeError
      | _ \<Rightarrow> Inl RuntimeError)"

text \<open>
  \<^verbatim>\<open>a + b\<close> on tensors broadcasts: the shapes are aligned at their last dimension, and
  two aligned sizes must be equal or one of them 1.
\<close>

fun broadcast_rev :: "nat list \<Rightarrow> nat list \<Rightarrow> error + nat list" where
  "broadcast_rev [] ys = Inr ys"
| "broadcast_rev xs [] = Inr xs"
| "broadcast_rev (x # xs) (y # ys) =
     (if x = y \<or> y = 1 then bindE (broadcast_rev xs ys) (\<lambda>r. Inr (x # r))
      else if x = 1 then bindE (broadcast_rev xs ys) (\<lambda>r. Inr (y # r))
      else Inl RuntimeError)"

definition tensor_add :: "tensor \<Rightarrow> tensor \<Rightarrow> error + tensor" where
  "tensor_add a b = bindE (broadcast_rev (rev a) (rev b)) (\<lambda>r. Inr (rev r))"

text \<open>\<^verbatim>\<open>x.reshape(*dims)\<close>: the number of elements must not change.\<close>

definition tensor_reshape :: "tensor \<Rightarrow> nat list \<Rightarrow> error + tensor" where
  "tensor_reshape x dims = (if prod_list x = prod_list dims then Inr dims else Inl RuntimeError)"

text \<open>
  \<^verbatim>\<open>x.permute(*perm)\<close>: \<open>perm\<close> must be a permutation of the dimension indices;
  dimension \<open>i\<close> of the result is dimension \<open>perm[i]\<close> of the input.
\<close>

definition tensor_permute :: "tensor \<Rightarrow> nat list \<Rightarrow> error + tensor" where
  "tensor_permute x perm =
     (if length perm = length x \<and> distinct perm \<and> (\<forall>i \<in> set perm. i < length x)
      then Inr (map (\<lambda>i. x ! i) perm) else Inl RuntimeError)"

section \<open>The sub-modules\<close>

text \<open>
  \<^verbatim>\<open>CNNBlock(in_channels, out_channels, bn_act=True, **kwargs)\<close>: the keyword arguments
  go to \<^verbatim>\<open>nn.Conv2d\<close>, whose defaults are stride 1 and padding 0. The batch norm is
  built over \<open>out_channels\<close>.
\<close>

record CNNBlock =
  conv_in :: nat
  conv_out_channels :: nat
  kernel_size :: nat
  stride :: nat
  padding :: nat
  bn_features :: nat
  use_bn_act :: bool

definition CNNBlock_init :: "nat \<Rightarrow> nat \<Rightarrow> bool \<Rightarrow> nat \<Rightarrow> nat \<Rightarrow> nat \<Rightarrow> CNNBlock" where
  "CNNBlock_init in_channels out_channels bn_act k s p =
     \<lparr>conv_in = in_channels, conv_out_channels = out_channels, kernel_size = k,
      stride = s, padding = p, bn_features = out_channels, use_bn_act = bn_act\<rparr>"

definition CNNBlock_forward :: "bool \<Rightarrow> CNNBlock \<Rightarrow> tensor \<Rightarrow> error + tensor" where
  "CNNBlock_forward training b x =
     (if use_bn_act b
      then bindE (nn_Conv2d (conv_in b) (conv_out_channels b) (kernel_size b) (stride b) (padding b) x)
             (\<lambda>c. bindE (nn_BatchNorm2d training (bn_features b) c) nn_LeakyReLU)
      else nn_Conv2d (conv_in b) (conv_out_channels b) (kernel_size b) (stride b) (padding b) x)"

text \<open>
  \<^verbatim>\<open>ResidualBlock(channels, use_residual=True, num_repeats=1)\<close>: \<open>num_repeats\<close> times
  a sequence of two blocks, \<open>channels \<rightarrow> channels // 2\<close> (kernel 1) and
  \<open>channels // 2 \<rightarrow> channels\<close> (kernel 3, padding 1).
\<close>

record ResidualBlock =
  res_layers :: "(CNNBlock \<times> CNNBlock) list"
  use_residual :: bool
  num_repeats :: nat

definition ResidualBlock_init :: "nat \<Rightarrow> bool \<Rightarrow> nat \<Rightarrow> ResidualBlock" where
  "ResidualBlock_init channels use_res n =
     \<lparr>res_layers = replicate n
        (CNNBlock_init channels (channels div 2) True 1 1 0,
         CNNBlock_init (channels div 2) channels True 3 1 1),
      use_residual = use_res, num_repeats = n\<rparr>"

text \<open>\<^verbatim>\<open>nn.Sequential\<close> of two blocks.\<close>

definition Sequential2_forward :: "bool \<Rightarrow> CNNBlock \<times> CNNBlock \<Rightarrow> tensor \<Rightarrow> error + tensor" where
  "Sequential2_forward training l x =
     bindE (CNNBlock_forward training (fst l) x) (CNNBlock_forward training (snd l))"

text \<open>
  The loop \<^verbatim>\<open>for layer in self.layers\<close> of \<^verbatim>\<open>ResidualBlock.forward\<close>. The loop
  itself does not depend on what a tensor is: \<open>call l x\<close> stands for \<^verbatim>\<open>layer(x)\<close> and
  \<open>add x y\<close> for \<^verbatim>\<open>x + y\<close>.
\<close>

fun ResidualBlock_loop ::
  "('l \<Rightarrow> 't \<Rightarrow> error + 't) \<Rightarrow> ('t \<Rightarrow> 't \<Rightarrow> error + 't) \<Rightarrow> bool \<Rightarrow> 'l list \<Rightarrow> 't \<Rightarrow>
   error + 't" where
  "ResidualBlock_loop call add use_res [] x = Inr x"
| "ResidualBlock_loop call add use_res (l # ls) x =
     (if use_res
      then bindE (call l x) (\<lambda>y.
           bindE (add x y) (\<lambda>x'. ResidualBlock_loop call add use_res ls x'))
      else bindE (call l x) (\<lambda>x'.
           ResidualBlock_loop call add use_res ls x'))"

text \<open>\<^verbatim>\<open>ResidualBlock.forward\<close> on shapes: a layer is a sequence of two blocks and
  \<^verbatim>\<open>+\<close> is the broadcasting addition.\<close>

definition ResidualBlock_forward :: "bool \<Rightarrow> ResidualBlock \<Rightarrow> tensor \<Rightarrow> error + tensor" where
  "ResidualBlock_forward training b x =
     ResidualBlock_loop (Sequential2_forward training) tensor_add
       (use_residual b) (res_layers b) x"

text \<open>
  \<^verbatim>\<open>ScalePrediction(in_channels, num_classes)\<close>: two blocks, the second without
  batch norm, producing \<open>(num_classes + 5) * 3\<close> channels. \<^verbatim>\<open>forward\<close> evaluates
  \<^verbatim>\<open>self.pred(x)\<close> first, then the arguments of \<^verbatim>\<open>reshape\<close> (reads of
  \<^verbatim>\<open>x.shape\<close>), then reshapes and permutes.
\<close>

record ScalePrediction =
  pred :: "CNNBlock \<times> CNNBlock"
  sp_num_classes :: nat

definition ScalePrediction_init :: "nat \<Rightarrow> nat \<Rightarrow> ScalePrediction" where
  "ScalePrediction_init in_channels num_classes =
     \<lparr>pred = (CNNBlock_init in_channels (2 * in_channels) True 3 1 1,
              CNNBlock_init (2 * in_channels) ((num_classes + 5) * 3) False 1 1 0),
      sp_num_classes = num_classes\<rparr>"

definition ScalePrediction_forward :: "bool \<Rightarrow> ScalePrediction \<Rightarrow> tensor \<Rightarrow> error + tensor" where
  "ScalePrediction_forward training sp x =
     bindE (Sequential2_forward training (pred sp) x) (\<lambda>p.
     bindE (getitem x 0) (\<lambda>d0.
     bindE (getitem x 2) (\<lambda>d2.
     bindE (getitem x 3) (\<lambda>d3.
     bindE (tensor_reshape p [d0, 3, sp_num_classes sp + 5, d2, d3]) (\<lambda>r.
     tensor_permute r [0, 1, 3, 4, 2])))))"

section \<open>The network\<close>

text \<open>
  The entries of \<^verbatim>\<open>model_config\<close> are tuples \<open>(filters, kernel_size, stride)\<close>,
  lists \<open>["B", num_repeats]\<close> and strings.
\<close>

datatype config_entry =
    Tuple nat nat nat
  | List string nat
  | Str string

definition model_config :: "config_entry list" where
  "model_config =
     [Tuple 32 3 1,
      Tuple 64 3 2,
      List ''B'' 1,
      Tuple 128 3 2,
      List ''B'' 2,
      Tuple 256 3 2,
      List ''B'' 8,
      Tuple 512 3 2,
      List ''B'' 8,
      Tuple 1024 3 2,
      List ''B'' 4,
      Tuple 512 1 1,
      Tuple 1024 3 1,
      Str ''S'',
      Tuple 256 1 1,
      Str ''U'',
      Tuple 256 1 1,
      Tuple 512 3 1,
      Str ''S'',
      Tuple 128 1 1,
      Str ''U'',
      Tuple 128 1 1,
      Tuple 256 3 1,
      Str ''S'']"

text \<open>The modules that \<^verbatim>\<open>self.layers\<close> holds; \<open>Upsample\<close> carries its scale factor.\<close>

datatype layer =
    LCNNBlock CNNBlock
  | LResidualBlock ResidualBlock
  | LScalePrediction ScalePrediction
  | LUpsample nat

text \<open>
  \<^verbatim>\<open>_create_conv_layers\<close>: the loop over \<^verbatim>\<open>model_config\<close>, carrying the layers built
  so far and the running \<open>in_channels\<close>. A string other than "S" and "U" adds nothing.
\<close>

fun create_conv_layers_loop ::
  "nat \<Rightarrow> config_entry list \<Rightarrow> layer list \<Rightarrow> nat \<Rightarrow> layer list" where
  "create_conv_layers_loop num_classes [] layers in_channels = layers"
| "create_conv_layers_loop num_classes (Tuple out_channels k s # ms) layers in_channels =
     create_conv_layers_loop num_classes ms
       (layers @ [LCNNBlock (CNNBlock_init in_channels out_channels True k s
                              (if k = 3 then 1 else 0))])
       out_channels"
| "create_conv_layers_loop num_classes (List tag n # ms) layers in_channels =
     create_conv_layers_loop num_classes ms
       (layers @ [LResidualBlock (ResidualBlock_init in_channels True n)])
       in_channels"
| "create_conv_layers_loop num_classes (Str m # ms) layers in_channels =
     (if m = ''S'' then
        create_conv_layers_loop num_classes ms
          (layers @
            [LResidualBlock (ResidualBlock_init in_channels False 1),
             LCNNBlock (CNNBlock_init in_channels (in_channels div 2) True 1 1 0),
             LScalePrediction (ScalePrediction_init (in_channels div 2) num_classes)])
          (in_channels div 2)
      else if m = ''U'' then
        create_conv_layers_loop num_classes ms (layers @ [LUpsample 2]) (in_channels * 3)
      else create_conv_layers_loop num_classes ms layers in_channels)"

definition create_conv_layers :: "nat \<Rightarrow> nat \<Rightarrow> layer list" where
  "create_conv_layers in_channels num_classes =
     create_conv_layers_loop num_classes model_config [] in_channels"

text \<open>
  The state of the loop of \<^verbatim>\<open>YOLOv3.forward\<close>: the running tensor \<open>x\<close>, the list
  \<open>outputs\<close> and the list \<open>route_connections\<close>. \<^verbatim>\<open>append\<close> adds at the end of a
  list, \<^verbatim>\<open>route_connections[-1]\<close> reads its last element (IndexError on an empty
  list) and \<^verbatim>\<open>pop()\<close> removes it.
\<close>

record fwd_state =
  cur :: tensor
  outputs :: "tensor list"
  route_connections :: "tensor list"

fun forward_step :: "bool \<Rightarrow> layer \<Rightarrow> fwd_state \<Rightarrow> error + fwd_state" where
  "forward_step training (LScalePrediction sp) st =
     bindE (ScalePrediction_forward training sp (cur st)) (\<lambda>out.
       Inr (st\<lparr>outputs := outputs st @ [out]\<rparr>))"
| "forward_step training (LResidualBlock b) st =
     bindE (ResidualBlock_forward training b (cur st)) (\<lambda>x.
       if num_repeats b = 8
       then Inr (st\<lparr>cur := x, route_connections := route_connections st @ [x]\<rparr>)
       else Inr (st\<lparr>cur := x\<rparr>))"
| "forward_step training (LUpsample f) st =
     bindE (nn_Upsample f (cur st)) (\<lambda>x.
       if route_connections st = [] then Inl IndexError
       else bindE (torch_cat_dim1 x (last (route_connections st))) (\<lambda>x'.
              Inr (st\<lparr>cur := x', route_connections := butlast (route_connections st)\<rparr>)))"
| "forward_step training (LCNNBlock b) st =
     bindE (CNNBlock_forward training b (cur st)) (\<lambda>x. Inr (st\<lparr>cur := x\<rparr>))"

fun forward_loop :: "bool \<Rightarrow> layer list \<Rightarrow> fwd_state \<Rightarrow> error + fwd_state" where
  "forward_loop training [] st = Inr st"
| "forward_loop training (l # ls) st =
     bindE (forward_step training l st) (forward_loop training ls)"

text \<open>
  The part of a \<^verbatim>\<open>YOLOv3\<close> object that \<^verbatim>\<open>forward\<close> reads: the layers and the
  module's \<^verbatim>\<open>training\<close> flag, which \<^verbatim>\<open>train()\<close> and \<^verbatim>\<open>eval()\<close> set on the module
  and all its sub-modules together.
\<close>

record YOLOv3_net =
  num_classes :: nat
  in_channels :: nat
  layers :: "layer list"
  training :: bool

definition YOLOv3_net_init :: "nat \<Rightarrow> nat \<Rightarrow> bool \<Rightarrow> YOLOv3_net" where
  "YOLOv3_net_init in_ch n_classes tr =
     \<lparr>num_classes = n_classes, in_channels = in_ch,
      layers = create_conv_layers in_ch n_classes, training = tr\<rparr>"

definition forward_state :: "YOLOv3_net \<Rightarrow> tensor \<Rightarrow> error + fwd_state" where
  "forward_state m x =
     forward_loop (training m) (layers m) \<lparr>cur = x, outputs = [], route_connections = []\<rparr>"

definition forward :: "YOLOv3_net \<Rightarrow> tensor \<Rightarrow> error + tensor list" where
  "forward m x = bindE (forward_state m x) (\<lambda>st. Inr (outputs st))"

section \<open>The LightningModule\<close>

text \<open>
  A batch of a loader is a pair \<open>(x, y)\<close> of an image tensor and a list of target
  tensors; a loader is the list of its batches, so that \<^verbatim>\<open>len(loader)\<close> is its length.
\<close>

type_synonym batch = "tensor \<times> tensor list"
type_synonym loader = "batch list"

text \<open>
  The attributes of the \<^verbatim>\<open>config\<close> module that the class reads. The module is not
  part of the repository's sources, so its values are parameters. Python floats are
  represented by the rational numbers their literals denote.
\<close>

record config =
  SAVE_MODEL :: bool
  CONF_THRESHOLD :: rat
  NMS_IOU_THRESH :: rat
  MAP_IOU_THRESH :: rat
  NUM_CLASSES :: nat
  ANCHORS :: "rat list list list"

text \<open>
  What the methods do to the outside world, in the order they do it: calls of
  \<^verbatim>\<open>self.log\<close>, \<^verbatim>\<open>print\<close>, \<^verbatim>\<open>save_checkpoint\<close> and \<^verbatim>\<open>check_class_accuracy\<close>.
  \<open>'v\<close> is the type of a logged value (a float or a scalar tensor).
\<close>

datatype 'v event =
    Log string 'v
  | Print 'v
  | SaveCheckpoint string
  | CheckClassAccuracy loader rat

text \<open>
  A \<^verbatim>\<open>YOLOv3\<close> object: the network, the attributes set by \<^verbatim>\<open>__init__\<close>, the
  trainer's \<^verbatim>\<open>current_epoch\<close>, and the trace of the effects performed so far.
  \<open>'a\<close> is the type of one scale's anchors in \<^verbatim>\<open>self.scaled_anchors\<close>;
  \<open>loss_fn\<close> is the attribute \<^verbatim>\<open>self.loss_fn = YoloLoss()\<close>.
\<close>

record ('a, 'v) YOLOv3 = YOLOv3_net +
  cfg :: config
  scaled_anchors :: "'a list"
  loss_fn :: "tensor \<Rightarrow> tensor \<Rightarrow> 'a \<Rightarrow> 'v"
  train_loader :: loader
  test_loader :: loader
  current_epoch :: int
  trace :: "'v event list"

text \<open>\<^verbatim>\<open>self(x)\<close> runs \<^verbatim>\<open>forward\<close> of the network part of the object.\<close>

definition self_call :: "('a, 'v) YOLOv3 \<Rightarrow> tensor \<Rightarrow> error + tensor list" where
  "self_call self x = forward (YOLOv3_net.truncate self) x"

subsection \<open>Global names\<close>

text \<open>
  The names bound at the top level of \<^verbatim>\<open>main_lt.py\<close>, by its imports, its assignment
  to \<^verbatim>\<open>model_config\<close> and its class statements. A name that a method reads without
  binding it is looked up here (no Python builtin and no name that Python gives every
  module is called \<^verbatim>\<open>loss_fn\<close>, so these are left out); a name that is not bound raises
  NameError.
\<close>

definition module_globals :: "string list" where
  "module_globals =
     [''print_function'', ''pl'', ''torch'', ''nn'', ''F'', ''optim'', ''datasets'',
      ''transforms'', ''A'', ''np'', ''ToTensorV2'', ''summary'', ''tqdm'', ''LRFinder'',
      ''OneCycleLR'', ''plt'', ''GradCAM'', ''ClassifierOutputTarget'',
      ''show_cam_on_image'', ''YoloLoss'', ''mean_average_precision'', ''cells_to_bboxes'',
      ''get_evaluation_bboxes'', ''save_checkpoint'', ''load_checkpoint'',
      ''check_class_accuracy'', ''get_loaders'', ''plot_couple_examples'',
      ''model_config'', ''CNNBlock'', ''ResidualBlock'', ''ScalePrediction'', ''YOLOv3'']"

definition lookup_global :: "string \<Rightarrow> error + string" where
  "lookup_global name = (if name \<in> set module_globals then Inr name else Inl (NameError name))"

subsection \<open>The training step\<close>

text \<open>
  \<^verbatim>\<open>training_step\<close>. The loss is called through the bare name \<^verbatim>\<open>loss_fn\<close>, a global
  lookup; \<open>call_global g\<close> stands for calling the object that a global name \<open>g\<close> is
  bound to, and \<open>add\<close> for \<^verbatim>\<open>+\<close> on loss values. Python evaluates the callee's name
  before the arguments of each call, and the three calls from left to right.
\<close>

definition training_step ::
  "(string \<Rightarrow> tensor \<Rightarrow> tensor \<Rightarrow> 'a \<Rightarrow> error + 'v) \<Rightarrow> ('v \<Rightarrow> 'v \<Rightarrow> 'v) \<Rightarrow>
   ('a, 'v) YOLOv3 \<Rightarrow> batch \<Rightarrow> nat \<Rightarrow> error + ('a, 'v) YOLOv3" where
  "training_step call_global add self batch batch_idx =
     (case batch of (x, y) \<Rightarrow>
      bindE (getitem y 0) (\<lambda>y0.
      bindE (getitem y 1) (\<lambda>y1.
      bindE (getitem y 2) (\<lambda>y2.
      bindE (self_call self x) (\<lambda>out.
      bindE (lookup_global ''loss_fn'') (\<lambda>f0.
      bindE (getitem out 0) (\<lambda>o0.
      bindE (getitem (scaled_anchors self) 0) (\<lambda>a0.
      bindE (call_global f0 o0 y0 a0) (\<lambda>l0.
      bindE (lookup_global ''loss_fn'') (\<lambda>f1.
      bindE (getitem out 1) (\<lambda>o1.
      bindE (getitem (scaled_anchors self) 1) (\<lambda>a1.
      bindE (call_global f1 o1 y1 a1) (\<lambda>l1.
      bindE (lookup_global ''loss_fn'') (\<lambda>f2.
      bindE (getitem out 2) (\<lambda>o2.
      bindE (getitem (scaled_anchors self) 2) (\<lambda>a2.
      bindE (call_global f2 o2 y2 a2) (\<lambda>l2.
        Inr (self\<lparr>trace := trace self @ [Log ''train_loss'' (add (add l0 l1) l2)]\<rparr>)
      )))))))))))))))))"

subsection \<open>The other hooks\<close>

text \<open>\<^verbatim>\<open>validation_step\<close> is \<^verbatim>\<open>pass\<close>: it returns \<^verbatim>\<open>None\<close> and the object as it was.\<close>

definition validation_step :: "('a, 'v) YOLOv3 \<Rightarrow> batch \<Rightarrow> nat \<Rightarrow> unit \<times> ('a, 'v) YOLOv3" where
  "validation_step self batch batch_idx = ((), self)"

text \<open>\<^verbatim>\<open>str\<close> of an integer, as the f-string \<^verbatim>\<open>{current_epoch}\<close> formats it.\<close>

definition digit_char :: "nat \<Rightarrow> char" where
  "digit_char d = ''0123456789'' ! d"

fun str_nat :: "nat \<Rightarrow> string" where
  "str_nat n = (if n < 10 then [digit_char n] else str_nat (n div 10) @ [digit_char (n mod 10)])"

declare str_nat.simps [simp del]

definition str_int :: "int \<Rightarrow> string" where
  "str_int i = (if i < 0 then CHR ''-'' # str_nat (nat (- i)) else str_nat (nat i))"

definition checkpoint_filename :: "int \<Rightarrow> string" where
  "checkpoint_filename epoch = ''checkpoint_'' @ str_int epoch @ ''.pth.tar''"

text \<open>\<^verbatim>\<open>training_epoch_end\<close>.\<close>

definition training_epoch_end :: "('a, 'v) YOLOv3 \<Rightarrow> ('a, 'v) YOLOv3" where
  "training_epoch_end self =
     (let epoch = current_epoch self;
          self1 = (if SAVE_MODEL (cfg self)
                   then self\<lparr>trace := trace self @ [SaveCheckpoint (checkpoint_filename epoch)]\<rparr>
                   else self)
      in self1\<lparr>trace := trace self1 @
                 [CheckClassAccuracy (train_loader self1) (CONF_THRESHOLD (cfg self1))]\<rparr>)"

text \<open>
  \<^verbatim>\<open>validation_epoch_end\<close>. The utility functions that compute values are
  parameters: \<open>get_evaluation_bboxes loader model iou_threshold anchors threshold\<close>
  returns the predicted and the true boxes,
  \<open>mean_average_precision pred_boxes true_boxes iou_threshold num_classes\<close> the metric
  (its \<^verbatim>\<open>box_format\<close> argument is the constant "midpoint"), and \<open>item\<close> is
  \<^verbatim>\<open>.item()\<close> on the metric; \<open>'b\<close> is the type of a list of boxes.
\<close>

definition validation_epoch_end ::
  "(loader \<Rightarrow> YOLOv3_net \<Rightarrow> rat \<Rightarrow> rat list list list \<Rightarrow> rat \<Rightarrow> 'b \<times> 'b) \<Rightarrow>
   ('b \<Rightarrow> 'b \<Rightarrow> rat \<Rightarrow> nat \<Rightarrow> 'v) \<Rightarrow> ('v \<Rightarrow> 'v) \<Rightarrow> ('a, 'v) YOLOv3 \<Rightarrow> ('a, 'v) YOLOv3" where
  "validation_epoch_end get_evaluation_bboxes mean_average_precision item self =
     (let epoch = current_epoch self in
      if epoch mod 10 = 0 \<or> epoch \<in> set [1, 2, 3] then
        (let c = cfg self;
             boxes = get_evaluation_bboxes (test_loader self) (YOLOv3_net.truncate self)
                       (NMS_IOU_THRESH c) (ANCHORS c) (CONF_THRESHOLD c);
             mapval = mean_average_precision (fst boxes) (snd boxes)
                        (MAP_IOU_THRESH c) (NUM_CLASSES c)
         in self\<lparr>trace := trace self @
                   [CheckClassAccuracy (test_loader self) (CONF_THRESHOLD c),
                    Print mapval,
                    Log ''MAP'' (item mapval)]\<rparr>)
      else self)"

text \<open>
  \<^verbatim>\<open>self.parameters()\<close> is represented by the layers that own parameters: every block,
  every head, and a residual block with at least one repeat; an upsample layer has none.
\<close>

fun has_parameters :: "layer \<Rightarrow> bool" where
  "has_parameters (LCNNBlock b) = True"
| "has_parameters (LResidualBlock b) = (res_layers b \<noteq> [])"
| "has_parameters (LScalePrediction sp) = True"
| "has_parameters (LUpsample f) = False"

definition module_parameters :: "('a, 'v) YOLOv3 \<Rightarrow> layer list" where
  "module_parameters self = filter has_parameters (layers self)"

text \<open>
  An optimizer and a scheduler are the records of the arguments their constructors are
  given. \<^verbatim>\<open>optim.Adam(params, lr, weight_decay)\<close> refuses an empty parameter list
  (ValueError "optimizer got an empty parameter list") and a negative rate or decay.
  \<^verbatim>\<open>OneCycleLR(optimizer, max_lr, steps_per_epoch, epochs, div_factor, pct_start)\<close>
  refuses a number of epochs or of steps per epoch that is not positive (ValueError
  "Expected positive integer steps_per_epoch") and a \<open>pct_start\<close> outside \<open>[0, 1]\<close>.
\<close>

datatype optimizer = Adam "layer list" rat rat

datatype scheduler = OneCycleLR optimizer rat nat nat rat rat

definition optim_Adam :: "layer list \<Rightarrow> rat \<Rightarrow> rat \<Rightarrow> error + optimizer" where
  "optim_Adam params lr weight_decay =
     (if params = [] \<or> lr < 0 \<or> weight_decay < 0 then Inl ValueError
      else Inr (Adam params lr weight_decay))"

definition lr_scheduler_OneCycleLR ::
  "optimizer \<Rightarrow> rat \<Rightarrow> nat \<Rightarrow> nat \<Rightarrow> rat \<Rightarrow> rat \<Rightarrow> error + scheduler" where
  "lr_scheduler_OneCycleLR optimizer max_lr steps_per_epoch epochs div_factor pct_start =
     (if epochs = 0 \<or> steps_per_epoch = 0 \<or> pct_start < 0 \<or> 1 < pct_start
      then Inl ValueError
      else Inr (OneCycleLR optimizer max_lr steps_per_epoch epochs div_factor pct_start))"

text \<open>\<^verbatim>\<open>configure_optimizers\<close>: the optimizer is built first, then the scheduler.\<close>

definition configure_optimizers ::
  "('a, 'v) YOLOv3 \<Rightarrow> error + optimizer list \<times> scheduler list" where
  "configure_optimizers self =
     bindE (optim_Adam (module_parameters self) (1 / 10 ^ 5) (1 / 10 ^ 4)) (\<lambda>optimizer.
     bindE (lr_scheduler_OneCycleLR optimizer (1 / 10 ^ 3) (length (train_loader self))
              40 100 (5 / 40)) (\<lambda>scheduler.
       Inr ([optimizer], [scheduler])))"

text \<open>
  \<^verbatim>\<open>YOLOv3.__init__\<close>. \<open>anchors\<close> is the tensor that torch computes for
  \<^verbatim>\<open>self.scaled_anchors\<close> from \<^verbatim>\<open>config.ANCHORS\<close> and \<^verbatim>\<open>config.S\<close>, one entry per
  scale, and \<open>yolo_loss\<close> is the \<^verbatim>\<open>YoloLoss()\<close> instance; both come from outside the
  repository's sources. A fresh module is in training mode, and \<^verbatim>\<open>current_epoch\<close> is 0
  until a trainer advances it.
\<close>

definition YOLOv3_init ::
  "config \<Rightarrow> loader \<Rightarrow> loader \<Rightarrow> nat \<Rightarrow> nat \<Rightarrow> 'a list \<Rightarrow> (tensor \<Rightarrow> tensor \<Rightarrow> 'a \<Rightarrow> 'v) \<Rightarrow>
   ('a, 'v) YOLOv3" where
  "YOLOv3_init config trl tel in_ch n_classes anchors yolo_loss =
     \<lparr>num_classes = n_classes, in_channels = in_ch,
      layers = create_conv_layers in_ch n_classes, training = True,
      cfg = config, scaled_anchors = anchors, loss_fn = yolo_loss,
      train_loader = trl, test_loader = tel, current_epoch = 0, trace = []\<rparr>"

section \<open>Definitions used to state and prove the properties\<close>

text \<open>
  What one pass of the loop body of \<^verbatim>\<open>YOLOv3.forward\<close> does to
  \<^verbatim>\<open>route_connections\<close>, read off the branch the layer takes: a residual block with
  eight repeats appends, an upsample layer pops, every other layer leaves the list alone.
\<close>

datatype stack_op = Push | Pop | Keep

fun route_op :: "layer \<Rightarrow> stack_op" where
  "route_op (LResidualBlock b) = (if num_repeats b = 8 then Push else Keep)"
| "route_op (LUpsample f) = Pop"
| "route_op (LScalePrediction sp) = Keep"
| "route_op (LCNNBlock b) = Keep"

text \<open>
  The length of \<^verbatim>\<open>route_connections\<close> after a list of layers, from its length before;
  \<open>None\<close> when an upsample layer would be reached with the list empty.
\<close>

fun route_depth :: "layer list \<Rightarrow> nat \<Rightarrow> nat option" where
  "route_depth [] d = Some d"
| "route_depth (l # ls) d =
     (case route_op l of
        Push \<Rightarrow> route_depth ls (Suc d)
      | Pop \<Rightarrow> (if d = 0 then None else route_depth ls (d - 1))
      | Keep \<Rightarrow> route_depth ls d)"

text \<open>A prediction head whose first block has a batch norm, as every head built by
  \<open>ScalePrediction_init\<close> has.\<close>

fun head_ok :: "layer \<Rightarrow> bool" where
  "head_ok (LScalePrediction sp) = use_bn_act (fst (pred sp))"
| "head_ok (LCNNBlock b) = True"
| "head_ok (LResidualBlock b) = True"
| "head_ok (LUpsample f) = True"

fun is_ScalePrediction :: "layer \<Rightarrow> bool" where
  "is_ScalePrediction (LScalePrediction sp) = True"
| "is_ScalePrediction (LCNNBlock b) = False"
| "is_ScalePrediction (LResidualBlock b) = False"
| "is_ScalePrediction (LUpsample f) = False"

text \<open>The batch-norm condition on a 4-D tensor \<open>[n, c, h, w]\<close>: outside training mode
  always, in training mode when there is not exactly one value per channel.\<close>

definition bn_ok :: "bool \<Rightarrow> nat \<Rightarrow> nat \<Rightarrow> nat \<Rightarrow> bool" where
  "bn_ok tr n h w = (tr \<longrightarrow> n * h * w \<noteq> 1)"

text \<open>One pass of the loop of \<^verbatim>\<open>ResidualBlock.forward\<close> with \<open>use_residual\<close> set:
  \<^verbatim>\<open>x = x + layer(x)\<close>.\<close>

definition residual_update :: "bool \<Rightarrow> CNNBlock \<times> CNNBlock \<Rightarrow> tensor \<Rightarrow> error + tensor" where
  "residual_update tr l x = bindE (Sequential2_forward tr l x) (\<lambda>y. tensor_add x y)"

text \<open>The events a hook has added to the trace of an object.\<close>

definition new_events :: "('a, 'v) YOLOv3 \<Rightarrow> ('a, 'v) YOLOv3 \<Rightarrow> 'v event list" where
  "new_events before after = drop (length (trace before)) (trace after)"

fun is_Log_MAP :: "'v event \<Rightarrow> bool" where
  "is_Log_MAP (Log name v) = (name = ''MAP'')"
| "is_Log_MAP (Print v) = False"
| "is_Log_MAP (SaveCheckpoint f) = False"
| "is_Log_MAP (CheckClassAccuracy l t) = False"

fun is_SaveCheckpoint :: "'v event \<Rightarrow> bool" where
  "is_SaveCheckpoint (SaveCheckpoint f) = True"
| "is_SaveCheckpoint (Log name v) = False"
| "is_SaveCheckpoint (Print v) = False"
| "is_SaveCheckpoint (CheckClassAccuracy l t) = False"

section \<open>Basic facts\<close>

lemma bindE_Inr [simp]: "bindE (Inr v) f = f v"
  by (simp add: bindE_def)

lemma bindE_Inl [simp]: "bindE (Inl e) f = Inl e"
  by (simp add: bindE_def)

lemma bindE_eq_Inr: "bindE m f = Inr y \<longleftrightarrow> (\<exists>v. m = Inr v \<and> f v = Inr y)"
  by (cases m) simp_all

lemma bindE_eq_Inl: "bindE m f = Inl e \<longleftrightarrow> m = Inl e \<or> (\<exists>v. m = Inr v \<and> f v = Inl e)"
  by (cases m) simp_all

subsection \<open>Convolutions on 4-D tensors\<close>

lemma conv_out_same3: "1 \<le> h \<Longrightarrow> conv_out h 3 1 1 = Inr h"
  by (simp add: conv_out_def)

lemma conv_out_same1: "1 \<le> h \<Longrightarrow> conv_out h 1 1 0 = Inr h"
  by (simp add: conv_out_def)

lemma conv_out_half: "1 \<le> h \<Longrightarrow> conv_out (2 * h) 3 2 1 = Inr h"
  by (simp add: conv_out_def)

lemma conv_out_same3_Inr: "conv_out h 3 1 1 = Inr h' \<Longrightarrow> h' = h"
  by (auto simp: conv_out_def split: if_splits)

lemma conv_out_same1_Inr: "conv_out h 1 1 0 = Inr h' \<Longrightarrow> h' = h"
  by (auto simp: conv_out_def split: if_splits)

lemma CNNBlock_forward_4D:
  assumes "1 \<le> cin" "1 \<le> cout" "conv_out h k s p = Inr h'" "conv_out w k s p = Inr w'"
      and "bn \<and> tr \<longrightarrow> n * h' * w' \<noteq> 1"
  shows "CNNBlock_forward tr (CNNBlock_init cin cout bn k s p) [n, cin, h, w]
         = Inr [n, cout, h', w']"
  using assms
  by (auto simp: CNNBlock_forward_def CNNBlock_init_def nn_Conv2d_def nn_BatchNorm2d_def
        nn_LeakyReLU_def conv_channels_def)

lemma nn_Conv2d_Inr:
  "nn_Conv2d cin cout k s p x = Inr y \<Longrightarrow>
     (\<exists>n h w h' w'. x = [n, cin, h, w] \<and> y = [n, conv_channels cin cout, h', w'] \<and>
        1 \<le> cout \<and> conv_out h k s p = Inr h' \<and> conv_out w k s p = Inr w')
   \<or> (\<exists>h w h' w'. x = [cin, h, w] \<and> y = [conv_channels cin cout, h', w'] \<and>
        1 \<le> cout \<and> conv_out h k s p = Inr h' \<and> conv_out w k s p = Inr w')"
  by (auto simp: nn_Conv2d_def bindE_def split: list.splits if_splits sum.splits)

lemma nn_Conv2d_length: "nn_Conv2d cin cout k s p x = Inr y \<Longrightarrow> length y = length x"
  by (auto dest!: nn_Conv2d_Inr)

lemma nn_BatchNorm2d_Inr: "nn_BatchNorm2d tr f x = Inr y \<Longrightarrow> y = x \<and> length x = 4"
  by (auto simp: nn_BatchNorm2d_def split: list.splits if_splits)

lemma CNNBlock_bn_4D:
  assumes "CNNBlock_forward tr b x = Inr y" "use_bn_act b"
  shows "length x = 4"
proof -
  from assms obtain c z
    where c: "nn_Conv2d (conv_in b) (conv_out_channels b) (kernel_size b)
                (stride b) (padding b) x = Inr c"
      and z: "nn_BatchNorm2d tr (bn_features b) c = Inr z"
    by (auto simp: CNNBlock_forward_def bindE_eq_Inr)
  from nn_BatchNorm2d_Inr [OF z] nn_Conv2d_length [OF c] show ?thesis by simp
qed

section \<open>The prediction head\<close>

lemma ScalePrediction_forward_4D:
  assumes "1 \<le> C" "1 \<le> H" "1 \<le> W" "tr \<longrightarrow> N * H * W \<noteq> 1"
  shows "ScalePrediction_forward tr (ScalePrediction_init C nc) [N, C, H, W]
         = Inr [N, 3, H, W, nc + 5]"
proof -
  have b1: "CNNBlock_forward tr (CNNBlock_init C (2 * C) True 3 1 1) [N, C, H, W]
            = Inr [N, 2 * C, H, W]"
    using assms by (intro CNNBlock_forward_4D conv_out_same3) auto
  have b2: "CNNBlock_forward tr (CNNBlock_init (2 * C) ((nc + 5) * 3) False 1 1 0)
              [N, 2 * C, H, W]
            = Inr [N, (nc + 5) * 3, H, W]"
    using assms by (intro CNNBlock_forward_4D conv_out_same1) auto
  have p: "Sequential2_forward tr (pred (ScalePrediction_init C nc)) [N, C, H, W]
            = Inr [N, (nc + 5) * 3, H, W]"
    by (simp only: Sequential2_forward_def ScalePrediction_init_def ScalePrediction.select_convs
          fst_conv snd_conv b1 b2 bindE_Inr)
  show ?thesis
    unfolding ScalePrediction_forward_def p
    by (simp add: ScalePrediction_init_def getitem_def tensor_reshape_def tensor_permute_def)
qed

text \<open>
  C8, as amended. For an input of shape \<open>(N, C, H, W)\<close> whose channel count \<open>C\<close> is the
  head's \<open>in_channels\<close>, with at least one channel and a non-empty spatial extent, and
  which in training mode does not hold exactly one value per channel,
  \<^verbatim>\<open>ScalePrediction.forward\<close> returns a tensor of shape
  \<open>(N, 3, H, W, num_classes + 5)\<close>.
\<close>

theorem ScalePrediction_forward_shape:
  assumes "1 \<le> C" "1 \<le> H" "1 \<le> W" "tr \<longrightarrow> N * H * W \<noteq> 1"
  shows "ScalePrediction_forward tr (ScalePrediction_init C nc) [N, C, H, W]
         = Inr [N, 3, H, W, nc + 5]"
  using assms by (rule ScalePrediction_forward_4D)

text \<open>The head of the coarsest scale on a batch of two 416 x 416 images, in training mode.\<close>

theorem ScalePrediction_forward_shape_witness:
  "(1::nat) \<le> 512 \<and> (1::nat) \<le> 13 \<and> (2::nat) * 13 * 13 \<noteq> 1 \<and>
   ScalePrediction_forward True (ScalePrediction_init 512 80) [2, 512, 13, 13]
     = Inr [2, 3, 13, 13, 85]"
  using ScalePrediction_forward_shape [of 512 13 13 True 2 80] by simp

text \<open>
  C8 as stated fails. In training mode (the mode of a freshly built module) the batch
  norm of the head's first block refuses an input with one value per channel; an input
  with an empty spatial extent is refused by the first convolution; a head over zero
  channels has a first convolution without output channels.
\<close>

theorem ScalePrediction_forward_counterexample:
  "ScalePrediction_forward True (ScalePrediction_init 4 20) [1, 4, 1, 1] = Inl ValueError \<and>
   ScalePrediction_forward False (ScalePrediction_init 4 20) [1, 4, 0, 1] = Inl RuntimeError \<and>
   ScalePrediction_forward False (ScalePrediction_init 0 20) [1, 0, 1, 1] = Inl RuntimeError"
  by (simp add: ScalePrediction_forward_def ScalePrediction_init_def Sequential2_forward_def
        CNNBlock_forward_def CNNBlock_init_def nn_Conv2d_def nn_BatchNorm2d_def
        nn_LeakyReLU_def conv_out_def)

section \<open>The residual block\<close>

lemma Sequential2_residual:
  assumes "2 \<le> c" "1 \<le> h" "1 \<le> w" "tr \<longrightarrow> n * h * w \<noteq> 1"
  shows "Sequential2_forward tr
           (CNNBlock_init c (c div 2) True 1 1 0, CNNBlock_init (c div 2) c True 3 1 1)
           [n, c, h, w] = Inr [n, c, h, w]"
proof -
  have b1: "CNNBlock_forward tr (CNNBlock_init c (c div 2) True 1 1 0) [n, c, h, w]
            = Inr [n, c div 2, h, w]"
    using assms by (intro CNNBlock_forward_4D conv_out_same1) auto
  have b2: "CNNBlock_forward tr (CNNBlock_init (c div 2) c True 3 1 1) [n, c div 2, h, w]
            = Inr [n, c, h, w]"
    using assms by (intro CNNBlock_forward_4D conv_out_same3) auto
  show ?thesis by (simp add: Sequential2_forward_def b1 b2 del: One_nat_def)
qed

lemma CNNBlock_bn_Inr:
  assumes "CNNBlock_forward tr (CNNBlock_init cin cout True k s p) x = Inr y"
  shows "\<exists>n h w h' w'. x = [n, cin, h, w] \<and> y = [n, conv_channels cin cout, h', w'] \<and>
           1 \<le> cout \<and> conv_out h k s p = Inr h' \<and> conv_out w k s p = Inr w'"
proof -
  from assms obtain m z where m: "nn_Conv2d cin cout k s p x = Inr m"
    and z: "nn_BatchNorm2d tr cout m = Inr z" and y: "nn_LeakyReLU z = Inr y"
    by (auto simp: CNNBlock_forward_def CNNBlock_init_def bindE_eq_Inr)
  from nn_BatchNorm2d_Inr [OF z] y have e: "y = m" and l: "length m = 4"
    by (simp_all add: nn_LeakyReLU_def)
  from nn_Conv2d_Inr [OF m] l e show ?thesis
    by auto
qed

lemma Sequential2_residual_Inr:
  assumes "Sequential2_forward tr
           (CNNBlock_init c (c div 2) True 1 1 0, CNNBlock_init (c div 2) c True 3 1 1) x = Inr y"
  shows "y = x"
proof -
  from assms obtain m
    where m: "CNNBlock_forward tr (CNNBlock_init c (c div 2) True 1 1 0) x = Inr m"
      and y: "CNNBlock_forward tr (CNNBlock_init (c div 2) c True 3 1 1) m = Inr y"
    by (auto simp: Sequential2_forward_def bindE_eq_Inr)
  from CNNBlock_bn_Inr [OF m] obtain n h w h' w'
    where x: "x = [n, c, h, w]" and m': "m = [n, conv_channels c (c div 2), h', w']"
      and half: "1 \<le> c div 2"
      and h: "conv_out h 1 1 0 = Inr h'" and w: "conv_out w 1 1 0 = Inr w'"
    by blast
  from half have c: "conv_channels c (c div 2) = c div 2" "conv_channels (c div 2) c = c"
    by (auto simp: conv_channels_def)
  from CNNBlock_bn_Inr [OF y] obtain n2 h2 w2 h3 w3
    where m2: "m = [n2, c div 2, h2, w2]" and y': "y = [n2, conv_channels (c div 2) c, h3, w3]"
      and h3: "conv_out h2 3 1 1 = Inr h3" and w3: "conv_out w2 3 1 1 = Inr w3"
    by blast
  from m' m2 have e: "n2 = n" "h2 = h'" "w2 = w'"
    by simp_all
  from h have "h' = h" by (rule conv_out_same1_Inr)
  moreover from w have "w' = w" by (rule conv_out_same1_Inr)
  moreover from h3 have "h3 = h2" by (rule conv_out_same3_Inr)
  moreover from w3 have "w3 = w2" by (rule conv_out_same3_Inr)
  ultimately show ?thesis
    using x y' c e by simp
qed

lemma broadcast_rev_same: "broadcast_rev xs xs = Inr xs"
  by (induction xs) simp_all

lemma tensor_add_same: "tensor_add x x = Inr x"
  by (simp add: tensor_add_def broadcast_rev_same)

lemma ResidualBlock_loop_replicate:
  assumes "2 \<le> c" "1 \<le> h" "1 \<le> w" "tr \<longrightarrow> n * h * w \<noteq> 1"
  shows "ResidualBlock_loop (Sequential2_forward tr) tensor_add ur
           (replicate k (CNNBlock_init c (c div 2) True 1 1 0, CNNBlock_init (c div 2) c True 3 1 1))
           [n, c, h, w] = Inr [n, c, h, w]"
proof (induction k)
  case 0
  show ?case by simp
next
  case (Suc k)
  show ?case
    by (simp only: replicate_Suc ResidualBlock_loop.simps Sequential2_residual [OF assms]
          bindE_Inr tensor_add_same Suc.IH if_cancel)
qed

lemma ResidualBlock_forward_4D:
  assumes "2 \<le> c" "1 \<le> h" "1 \<le> w" "tr \<longrightarrow> n * h * w \<noteq> 1"
  shows "ResidualBlock_forward tr (ResidualBlock_init c ur k) [n, c, h, w] = Inr [n, c, h, w]"
  by (simp add: ResidualBlock_forward_def ResidualBlock_init_def
        ResidualBlock_loop_replicate [OF assms] del: One_nat_def)

lemma ResidualBlock_loop_Inr:
  "ResidualBlock_loop (Sequential2_forward tr) tensor_add True
     (replicate k (CNNBlock_init c (c div 2) True 1 1 0, CNNBlock_init (c div 2) c True 3 1 1))
     x = Inr y \<Longrightarrow> y = x"
proof (induction k arbitrary: x)
  case 0
  then show ?case by simp
next
  case (Suc k)
  let ?l = "(CNNBlock_init c (c div 2) True 1 1 0, CNNBlock_init (c div 2) c True 3 1 1)"
  from Suc.prems obtain z x' where z: "Sequential2_forward tr ?l x = Inr z"
    and a: "tensor_add x z = Inr x'"
    and r: "ResidualBlock_loop (Sequential2_forward tr) tensor_add True (replicate k ?l) x' = Inr y"
    by (auto simp: bindE_def split: sum.splits)
  from z have "z = x" by (rule Sequential2_residual_Inr)
  with a have "x' = x" by (simp add: tensor_add_same)
  with r Suc.IH show ?case by simp
qed

lemma residual_fold_Inl:
  "foldl (\<lambda>r l. bindE r (residual_update tr l)) (Inl e) ls = Inl e"
  by (induction ls) simp_all

lemma ResidualBlock_loop_fold:
  "ResidualBlock_loop (Sequential2_forward tr) tensor_add True ls x = foldl (\<lambda>r l. bindE r (residual_update tr l)) (Inr x) ls"
proof (induction ls arbitrary: x)
  case Nil
  show ?case by simp
next
  case (Cons l ls)
  show ?case
  proof (cases "residual_update tr l x")
    case (Inl e)
    then have "ResidualBlock_loop (Sequential2_forward tr) tensor_add True (l # ls) x = Inl e"
      by (auto simp: residual_update_def bindE_eq_Inl)
    with Inl show ?thesis by (simp add: residual_fold_Inl)
  next
    case (Inr x')
    then have "ResidualBlock_loop (Sequential2_forward tr) tensor_add True (l # ls) x = ResidualBlock_loop (Sequential2_forward tr) tensor_add True ls x'"
      by (auto simp: residual_update_def bindE_eq_Inr)
    with Inr Cons.IH show ?thesis by simp
  qed
qed

lemma ResidualBlock_loop_values:
  "ResidualBlock_loop (\<lambda>f a. Inr (f a)) (\<lambda>a b. Inr (a + b)) True fs (i::int)
     = Inr (foldl (\<lambda>a f. a + f a) i fs)"
  by (induction fs arbitrary: i) simp_all

text \<open>
  C4. A residual block built with \<open>use_residual = True\<close> and \<open>k\<close> repeats stores \<open>k\<close>
  layers, each a block from \<open>channels\<close> to \<open>channels div 2\<close> channels followed by one back
  to \<open>channels\<close>, and has \<open>use_residual\<close> set. The forward of any block is the loop over
  its stored layers with its flag; with the flag set, whatever \<^verbatim>\<open>layer(x)\<close> and \<^verbatim>\<open>+\<close>
  are, the loop returns \<open>x\<close> when no layer is left and otherwise calls the first layer on
  \<open>x\<close>, adds the result to \<open>x\<close> and goes on with the sum: on integers, with layers that
  are functions, it computes \<^verbatim>\<open>x = x + f(x)\<close> for each function in order. On shapes the
  forward is the update \<^verbatim>\<open>x = x + layer(x)\<close> folded over the layers in order; whatever
  tensor it returns has the shape of its input; with no repeats it returns its input; and
  on a 4-D input with \<open>channels\<close> channels that the library accepts (at least two
  channels, a non-empty spatial extent, not a single value per channel in training mode)
  it does return.
\<close>

theorem ResidualBlock_forward_same_shape:
  "res_layers (ResidualBlock_init channels True k) =
     replicate k (CNNBlock_init channels (channels div 2) True 1 1 0,
                  CNNBlock_init (channels div 2) channels True 3 1 1)
   \<and> length (res_layers (ResidualBlock_init channels True k)) = k
   \<and> use_residual (ResidualBlock_init channels True k)
   \<and> ResidualBlock_forward tr blk x =
       ResidualBlock_loop (Sequential2_forward tr) tensor_add (use_residual blk)
         (res_layers blk) x
   \<and> ResidualBlock_loop call add True [] v = Inr v
   \<and> ResidualBlock_loop call add True (l # ls) v =
       bindE (call l v) (\<lambda>y. bindE (add v y) (\<lambda>v'. ResidualBlock_loop call add True ls v'))
   \<and> ResidualBlock_loop (\<lambda>f a. Inr (f a)) (\<lambda>a b. Inr (a + b)) True fs (i::int)
       = Inr (foldl (\<lambda>a f. a + f a) i fs)
   \<and> ResidualBlock_forward tr (ResidualBlock_init channels True k) x =
       foldl (\<lambda>r l. bindE r (residual_update tr l)) (Inr x)
         (res_layers (ResidualBlock_init channels True k))
   \<and> (\<forall>y. ResidualBlock_forward tr (ResidualBlock_init channels True k) x = Inr y \<longrightarrow> y = x)
   \<and> ResidualBlock_forward tr (ResidualBlock_init channels True 0) x = Inr x
   \<and> (2 \<le> channels \<and> 1 \<le> h \<and> 1 \<le> w \<and> (tr \<longrightarrow> n * h * w \<noteq> 1) \<longrightarrow>
        ResidualBlock_forward tr (ResidualBlock_init channels True k) [n, channels, h, w]
          = Inr [n, channels, h, w])"
proof (intro conjI allI impI)
  show "res_layers (ResidualBlock_init channels True k) =
     replicate k (CNNBlock_init channels (channels div 2) True 1 1 0,
                  CNNBlock_init (channels div 2) channels True 3 1 1)"
    by (simp add: ResidualBlock_init_def)
  show "length (res_layers (ResidualBlock_init channels True k)) = k"
    by (simp add: ResidualBlock_init_def)
  show "use_residual (ResidualBlock_init channels True k)"
    by (simp add: ResidualBlock_init_def)
  show "ResidualBlock_forward tr blk x =
       ResidualBlock_loop (Sequential2_forward tr) tensor_add (use_residual blk)
         (res_layers blk) x"
    by (simp add: ResidualBlock_forward_def)
  show "ResidualBlock_loop call add True [] v = Inr v"
    by simp
  show "ResidualBlock_loop call add True (l # ls) v =
       bindE (call l v) (\<lambda>y. bindE (add v y) (\<lambda>v'. ResidualBlock_loop call add True ls v'))"
    by simp
  show "ResidualBlock_loop (\<lambda>f a. Inr (f a)) (\<lambda>a b. Inr (a + b)) True fs (i::int)
       = Inr (foldl (\<lambda>a f. a + f a) i fs)"
    by (rule ResidualBlock_loop_values)
  show "ResidualBlock_forward tr (ResidualBlock_init channels True k) x =
       foldl (\<lambda>r l. bindE r (residual_update tr l)) (Inr x)
         (res_layers (ResidualBlock_init channels True k))"
    by (simp add: ResidualBlock_forward_def ResidualBlock_init_def ResidualBlock_loop_fold)
  show "y = x" if "ResidualBlock_forward tr (ResidualBlock_init channels True k) x = Inr y" for y
    using that
    by (auto simp: ResidualBlock_forward_def ResidualBlock_init_def simp del: One_nat_def
          dest: ResidualBlock_loop_Inr)
  show "ResidualBlock_forward tr (ResidualBlock_init channels True 0) x = Inr x"
    by (simp add: ResidualBlock_forward_def ResidualBlock_init_def)
  show "ResidualBlock_forward tr (ResidualBlock_init channels True k) [n, channels, h, w]
          = Inr [n, channels, h, w]"
    if "2 \<le> channels \<and> 1 \<le> h \<and> 1 \<le> w \<and> (tr \<longrightarrow> n * h * w \<noteq> 1)"
    using that by (intro ResidualBlock_forward_4D) auto
qed

text \<open>The second residual stage of the backbone (128 channels, two repeats) on a batch of
  two 104 x 104 feature maps, in training mode; and the loop on the integer 3 with the
  layers \<open>a \<mapsto> 2 a\<close> and \<open>a \<mapsto> a a\<close>: \<open>3 + 6 = 9\<close>, then \<open>9 + 81 = 90\<close>.\<close>

theorem ResidualBlock_forward_same_shape_witness:
  "(2::nat) \<le> 128 \<and> (1::nat) \<le> 104 \<and> (2::nat) * 104 * 104 \<noteq> 1 \<and>
   ResidualBlock_forward True (ResidualBlock_init 128 True 2) [2, 128, 104, 104]
     = Inr [2, 128, 104, 104] \<and>
   length (res_layers (ResidualBlock_init 128 True 2)) = 2 \<and>
   ResidualBlock_loop (\<lambda>f a. Inr (f a)) (\<lambda>a b. Inr (a + b)) True
     [\<lambda>a. 2 * a, \<lambda>a. a * a] (3::int) = Inr 90"
proof -
  note t = ResidualBlock_forward_same_shape
    [where channels = 128 and k = 2 and tr = True and x = "[2, 128, 104, 104]"
       and h = 104 and w = 104 and n = 2 and blk = "ResidualBlock_init 128 True 2"
       and call = "Sequential2_forward True" and add = tensor_add
       and l = "(CNNBlock_init 128 64 True 1 1 0, CNNBlock_init 64 128 True 3 1 1)"
       and ls = "[]" and v = "[]" and fs = "[\<lambda>a. 2 * a, \<lambda>a. a * a]" and i = 3]
  from t have len: "length (res_layers (ResidualBlock_init 128 True 2)) = 2"
    by (elim conjE)
  from t have val: "ResidualBlock_loop (\<lambda>f a. Inr (f a)) (\<lambda>a b. Inr (a + b)) True
      [\<lambda>a. 2 * a, \<lambda>a. a * a] (3::int) = Inr (foldl (\<lambda>a f. a + f a) 3 [\<lambda>a. 2 * a, \<lambda>a. a * a])"
    by (elim conjE)
  from t have imp: "2 \<le> (128::nat) \<and> 1 \<le> (104::nat) \<and> 1 \<le> (104::nat) \<and>
      (True \<longrightarrow> (2::nat) * 104 * 104 \<noteq> 1) \<longrightarrow>
      ResidualBlock_forward True (ResidualBlock_init 128 True 2) [2, 128, 104, 104]
        = Inr [2, 128, 104, 104]"
    by (elim conjE)
  have hyp: "2 \<le> (128::nat) \<and> 1 \<le> (104::nat) \<and> 1 \<le> (104::nat) \<and>
      (True \<longrightarrow> (2::nat) * 104 * 104 \<noteq> 1)"
    by simp
  from imp hyp have "ResidualBlock_forward True (ResidualBlock_init 128 True 2)
      [2, 128, 104, 104] = Inr [2, 128, 104, 104]"
    by (rule mp)
  with len val show ?thesis by simp
qed

section \<open>The forward pass\<close>

subsection \<open>The layers built from the configuration\<close>

lemma layers_list:
  "create_conv_layers c nc =
     [LCNNBlock (CNNBlock_init c 32 True 3 1 1),
      LCNNBlock (CNNBlock_init 32 64 True 3 2 1),
      LResidualBlock (ResidualBlock_init 64 True 1),
      LCNNBlock (CNNBlock_init 64 128 True 3 2 1),
      LResidualBlock (ResidualBlock_init 128 True 2),
      LCNNBlock (CNNBlock_init 128 256 True 3 2 1),
      LResidualBlock (ResidualBlock_init 256 True 8),
      LCNNBlock (CNNBlock_init 256 512 True 3 2 1),
      LResidualBlock (ResidualBlock_init 512 True 8),
      LCNNBlock (CNNBlock_init 512 1024 True 3 2 1),
      LResidualBlock (ResidualBlock_init 1024 True 4),
      LCNNBlock (CNNBlock_init 1024 512 True 1 1 0),
      LCNNBlock (CNNBlock_init 512 1024 True 3 1 1),
      LResidualBlock (ResidualBlock_init 1024 False 1),
      LCNNBlock (CNNBlock_init 1024 512 True 1 1 0),
      LScalePrediction (ScalePrediction_init 512 nc),
      LCNNBlock (CNNBlock_init 512 256 True 1 1 0),
      LUpsample 2,
      LCNNBlock (CNNBlock_init 768 256 True 1 1 0),
      LCNNBlock (CNNBlock_init 256 512 True 3 1 1),
      LResidualBlock (ResidualBlock_init 512 False 1),
      LCNNBlock (CNNBlock_init 512 256 True 1 1 0),
      LScalePrediction (ScalePrediction_init 256 nc),
      LCNNBlock (CNNBlock_init 256 128 True 1 1 0),
      LUpsample 2,
      LCNNBlock (CNNBlock_init 384 128 True 1 1 0),
      LCNNBlock (CNNBlock_init 128 256 True 3 1 1),
      LResidualBlock (ResidualBlock_init 256 False 1),
      LCNNBlock (CNNBlock_init 256 128 True 1 1 0),
      LScalePrediction (ScalePrediction_init 128 nc)]"
  by (simp add: create_conv_layers_def model_config_def del: One_nat_def)

lemma num_repeats_init: "num_repeats (ResidualBlock_init c ur k) = k"
  by (simp add: ResidualBlock_init_def)

lemma layers_route_ops:
  "filter (\<lambda>e. e \<noteq> Keep) (map route_op (create_conv_layers c nc)) = [Push, Push, Pop, Pop]"
  by (simp add: layers_list num_repeats_init)

lemma layers_route_depth: "route_depth (create_conv_layers c nc) 0 = Some 0"
  by (simp add: layers_list num_repeats_init)

lemma layers_head_ok: "\<forall>l \<in> set (create_conv_layers c nc). head_ok l"
  by (simp add: layers_list ScalePrediction_init_def CNNBlock_init_def)

lemma layers_heads:
  "filter is_ScalePrediction (create_conv_layers c nc) =
     [LScalePrediction (ScalePrediction_init 512 nc),
      LScalePrediction (ScalePrediction_init 256 nc),
      LScalePrediction (ScalePrediction_init 128 nc)]"
  by (simp add: layers_list)

subsection \<open>The forward pass on a valid shape\<close>

lemma bn_ok_even: "bn_ok tr n (numeral (Num.Bit0 a) * h) w"
  by (simp add: bn_ok_def)

lemma CNN_same3:
  "\<lbrakk>1 \<le> cin; 1 \<le> cout; 1 \<le> h; 1 \<le> w; bn_ok tr n h w\<rbrakk> \<Longrightarrow>
   CNNBlock_forward tr (CNNBlock_init cin cout True 3 1 1) [n, cin, h, w] = Inr [n, cout, h, w]"
  by (intro CNNBlock_forward_4D conv_out_same3) (auto simp: bn_ok_def)

lemma CNN_same1:
  "\<lbrakk>1 \<le> cin; 1 \<le> cout; 1 \<le> h; 1 \<le> w; bn_ok tr n h w\<rbrakk> \<Longrightarrow>
   CNNBlock_forward tr (CNNBlock_init cin cout True 1 1 0) [n, cin, h, w] = Inr [n, cout, h, w]"
  by (intro CNNBlock_forward_4D conv_out_same1) (auto simp: bn_ok_def)

lemma CNN_half:
  "\<lbrakk>1 \<le> cin; 1 \<le> cout; 1 \<le> h; 1 \<le> w; bn_ok tr n h w\<rbrakk> \<Longrightarrow>
   CNNBlock_forward tr (CNNBlock_init cin cout True 3 2 1) [n, cin, 2 * h, 2 * w]
     = Inr [n, cout, h, w]"
  by (intro CNNBlock_forward_4D conv_out_half) (auto simp: bn_ok_def)

lemma CNN_half_num:
  assumes "1 \<le> cin" "1 \<le> cout" "1 \<le> numeral a * h" "1 \<le> numeral b * w"
    "bn_ok tr n (numeral a * h) (numeral b * w)"
  shows "CNNBlock_forward tr (CNNBlock_init cin cout True 3 2 1)
           [n, cin, numeral (Num.Bit0 a) * h, numeral (Num.Bit0 b) * w]
         = Inr [n, cout, numeral a * h, numeral b * w]"
proof -
  have e: "numeral (Num.Bit0 a) * h = 2 * (numeral a * h)"
          "numeral (Num.Bit0 b) * w = 2 * (numeral b * w)"
    by (simp_all add: numeral_Bit0 algebra_simps)
  show ?thesis unfolding e by (rule CNN_half [OF assms])
qed

lemma Res_4D:
  "\<lbrakk>2 \<le> c; 1 \<le> h; 1 \<le> w; bn_ok tr n h w\<rbrakk> \<Longrightarrow>
   ResidualBlock_forward tr (ResidualBlock_init c ur k) [n, c, h, w] = Inr [n, c, h, w]"
  by (rule ResidualBlock_forward_4D) (auto simp: bn_ok_def)

lemma SP_4D:
  "\<lbrakk>1 \<le> c; 1 \<le> h; 1 \<le> w; bn_ok tr n h w\<rbrakk> \<Longrightarrow>
   ScalePrediction_forward tr (ScalePrediction_init c nc) [n, c, h, w] = Inr [n, 3, h, w, nc + 5]"
  by (rule ScalePrediction_forward_4D) (auto simp: bn_ok_def)

lemma Up_4D:
  "\<lbrakk>1 \<le> c; 1 \<le> h; 1 \<le> w\<rbrakk> \<Longrightarrow> nn_Upsample 2 [n, c, h, w] = Inr [n, c, 2 * h, 2 * w]"
  by (simp add: nn_Upsample_def mult.commute)

lemma cat_4D: "torch_cat_dim1 [n, c, h, w] [n, c', h, w] = Inr [n, c + c', h, w]"
  by (simp add: torch_cat_dim1_def)

lemmas forward_eval =
  CNN_same3 CNN_same1 CNN_half_num Res_4D SP_4D Up_4D cat_4D num_repeats_init bn_ok_even

lemma forward_state_valid:
  assumes "1 \<le> h" "1 \<le> w" "bn_ok tr n h w" "1 \<le> c"
  shows "forward_state (YOLOv3_net_init c nc tr) [n, c, 32 * h, 32 * w] =
     Inr \<lparr>cur = [n, 128, 4 * h, 4 * w],
          outputs = [[n, 3, h, w, nc + 5], [n, 3, 2 * h, 2 * w, nc + 5],
                     [n, 3, 4 * h, 4 * w, nc + 5]],
          route_connections = []\<rparr>"
  using assms
  by (simp add: forward_state_def YOLOv3_net_init_def layers_list forward_eval
        del: One_nat_def)

lemma forward_prefix_states:
  assumes "1 \<le> h" "1 \<le> w" "bn_ok tr n h w" "1 \<le> c"
  shows "forward_loop tr (take 17 (create_conv_layers c nc))
           \<lparr>cur = [n, c, 32 * h, 32 * w], outputs = [], route_connections = []\<rparr> =
         Inr \<lparr>cur = [n, 256, h, w], outputs = [[n, 3, h, w, nc + 5]],
              route_connections = [[n, 256, 4 * h, 4 * w], [n, 512, 2 * h, 2 * w]]\<rparr>"
    and "forward_loop tr (take 18 (create_conv_layers c nc))
           \<lparr>cur = [n, c, 32 * h, 32 * w], outputs = [], route_connections = []\<rparr> =
         Inr \<lparr>cur = [n, 768, 2 * h, 2 * w], outputs = [[n, 3, h, w, nc + 5]],
              route_connections = [[n, 256, 4 * h, 4 * w]]\<rparr>"
    and "forward_loop tr (take 24 (create_conv_layers c nc))
           \<lparr>cur = [n, c, 32 * h, 32 * w], outputs = [], route_connections = []\<rparr> =
         Inr \<lparr>cur = [n, 128, 2 * h, 2 * w],
              outputs = [[n, 3, h, w, nc + 5], [n, 3, 2 * h, 2 * w, nc + 5]],
              route_connections = [[n, 256, 4 * h, 4 * w]]\<rparr>"
    and "forward_loop tr (take 25 (create_conv_layers c nc))
           \<lparr>cur = [n, c, 32 * h, 32 * w], outputs = [], route_connections = []\<rparr> =
         Inr \<lparr>cur = [n, 384, 4 * h, 4 * w],
              outputs = [[n, 3, h, w, nc + 5], [n, 3, 2 * h, 2 * w, nc + 5]],
              route_connections = []\<rparr>"
  using assms
  by (simp_all add: layers_list forward_eval del: One_nat_def)

subsection \<open>Which errors a layer can raise\<close>

lemma conv_out_no_IndexError: "conv_out h k s p \<noteq> Inl IndexError"
  by (simp add: conv_out_def)

lemma nn_Conv2d_no_IndexError: "nn_Conv2d cin cout k s p x \<noteq> Inl IndexError"
  by (auto simp: nn_Conv2d_def bindE_eq_Inl conv_out_no_IndexError split: list.splits)

lemma nn_BatchNorm2d_no_IndexError: "nn_BatchNorm2d tr f x \<noteq> Inl IndexError"
  by (auto simp: nn_BatchNorm2d_def split: list.splits)

lemma CNNBlock_forward_no_IndexError: "CNNBlock_forward tr b x \<noteq> Inl IndexError"
  by (auto simp: CNNBlock_forward_def bindE_eq_Inl nn_Conv2d_no_IndexError
        nn_BatchNorm2d_no_IndexError nn_LeakyReLU_def)

lemma Sequential2_no_IndexError: "Sequential2_forward tr l x \<noteq> Inl IndexError"
  by (auto simp: Sequential2_forward_def bindE_eq_Inl CNNBlock_forward_no_IndexError)

lemma broadcast_rev_no_IndexError: "broadcast_rev xs ys \<noteq> Inl IndexError"
  by (induction xs ys rule: broadcast_rev.induct) (auto simp: bindE_eq_Inl)

lemma tensor_add_no_IndexError: "tensor_add a b \<noteq> Inl IndexError"
  by (auto simp: tensor_add_def bindE_eq_Inl broadcast_rev_no_IndexError)

lemma ResidualBlock_loop_no_IndexError:
  "ResidualBlock_loop (Sequential2_forward tr) tensor_add ur ls x \<noteq> Inl IndexError"
  by (induction ls arbitrary: x)
     (auto simp: bindE_eq_Inl Sequential2_no_IndexError tensor_add_no_IndexError)

lemma ResidualBlock_forward_no_IndexError: "ResidualBlock_forward tr b x \<noteq> Inl IndexError"
  by (simp add: ResidualBlock_forward_def ResidualBlock_loop_no_IndexError)

lemma nn_Upsample_no_IndexError: "nn_Upsample f x \<noteq> Inl IndexError"
  by (auto simp: nn_Upsample_def split: list.splits)

lemma torch_cat_no_IndexError: "torch_cat_dim1 a b \<noteq> Inl IndexError"
  by (auto simp: torch_cat_dim1_def split: list.splits)

text \<open>The reads of \<^verbatim>\<open>x.shape\<close> in a head come after \<^verbatim>\<open>self.pred(x)\<close>, which only a
  4-D tensor passes.\<close>

lemma ScalePrediction_no_IndexError:
  assumes "use_bn_act (fst (pred sp))"
  shows "ScalePrediction_forward tr sp x \<noteq> Inl IndexError"
proof
  assume a: "ScalePrediction_forward tr sp x = Inl IndexError"
  then obtain p where p: "Sequential2_forward tr (pred sp) x = Inr p"
    by (auto simp: ScalePrediction_forward_def bindE_eq_Inl Sequential2_no_IndexError)
  then have "length x = 4"
    using assms by (auto simp: Sequential2_forward_def bindE_eq_Inr dest: CNNBlock_bn_4D)
  with a p show False
    by (auto simp: ScalePrediction_forward_def getitem_def tensor_reshape_def tensor_permute_def
          bindE_eq_Inl split: if_splits)
qed

subsection \<open>The loop and its two lists\<close>

lemma forward_step_no_IndexError:
  assumes "head_ok l" "route_op l = Pop \<longrightarrow> route_connections st \<noteq> []"
  shows "forward_step tr l st \<noteq> Inl IndexError"
  using assms
  by (cases l)
     (auto simp: bindE_eq_Inl CNNBlock_forward_no_IndexError ResidualBlock_forward_no_IndexError
        ScalePrediction_no_IndexError nn_Upsample_no_IndexError torch_cat_no_IndexError)

lemma forward_step_route_op:
  assumes "forward_step tr l st = Inr st'"
  shows "case route_op l of
           Push \<Rightarrow> route_connections st' = route_connections st @ [cur st']
         | Pop \<Rightarrow> route_connections st \<noteq> [] \<and>
                  route_connections st' = butlast (route_connections st)
         | Keep \<Rightarrow> route_connections st' = route_connections st"
proof (cases l)
  case (LResidualBlock b)
  with assms show ?thesis
    by (cases "num_repeats b = 8") (auto simp: bindE_eq_Inr)
next
  case (LUpsample f)
  with assms show ?thesis
    by (cases "route_connections st = []") (auto simp: bindE_eq_Inr)
qed (use assms in \<open>auto simp: bindE_eq_Inr\<close>)

lemma forward_step_outputs:
  assumes "forward_step tr l st = Inr st'"
  shows "if is_ScalePrediction l
         then \<exists>sp out. l = LScalePrediction sp \<and>
                ScalePrediction_forward tr sp (cur st) = Inr out \<and>
                outputs st' = outputs st @ [out]
         else outputs st' = outputs st"
proof (cases l)
  case (LResidualBlock b)
  with assms show ?thesis
    by (cases "num_repeats b = 8") (auto simp: bindE_eq_Inr)
next
  case (LUpsample f)
  with assms show ?thesis
    by (cases "route_connections st = []") (auto simp: bindE_eq_Inr)
qed (use assms in \<open>auto simp: bindE_eq_Inr\<close>)

lemma forward_loop_depth:
  assumes "forward_loop tr ls st = Inr st'"
  shows "route_depth ls (length (route_connections st)) = Some (length (route_connections st'))"
  using assms
proof (induction ls arbitrary: st)
  case Nil
  then show ?case by simp
next
  case (Cons l ls)
  from Cons.prems obtain st1 where s: "forward_step tr l st = Inr st1"
    and r: "forward_loop tr ls st1 = Inr st'"
    by (auto simp: bindE_eq_Inr)
  from forward_step_route_op [OF s] Cons.IH [OF r] show ?case
    by (cases "route_op l") auto
qed

lemma forward_loop_no_IndexError:
  assumes "\<forall>l \<in> set ls. head_ok l" "route_depth ls (length (route_connections st)) = Some k"
  shows "forward_loop tr ls st \<noteq> Inl IndexError"
  using assms
proof (induction ls arbitrary: st)
  case Nil
  then show ?case by simp
next
  case (Cons l ls)
  have pop: "route_op l = Pop \<longrightarrow> route_connections st \<noteq> []"
    using Cons.prems(2) by (auto split: if_splits)
  have 1: "forward_step tr l st \<noteq> Inl IndexError"
    using Cons.prems(1) pop by (intro forward_step_no_IndexError) auto
  have 2: "forward_loop tr ls st1 \<noteq> Inl IndexError" if s: "forward_step tr l st = Inr st1" for st1
  proof -
    have "route_depth ls (length (route_connections st1)) = Some k"
      using forward_step_route_op [OF s] Cons.prems(2)
      by (cases "route_op l") (auto split: if_splits)
    with Cons.prems(1) show ?thesis by (intro Cons.IH) auto
  qed
  show ?case using 1 2 by (auto simp: bindE_eq_Inl)
qed

lemma route_depth_append:
  "route_depth (xs @ ys) d =
     (case route_depth xs d of None \<Rightarrow> None | Some d' \<Rightarrow> route_depth ys d')"
  by (induction xs arbitrary: d) (auto split: stack_op.splits)

lemma forward_loop_outputs:
  assumes "forward_loop tr ls st = Inr st'"
  shows "\<exists>new. outputs st' = outputs st @ new \<and>
           list_all2 (\<lambda>l out. \<exists>sp xin. l = LScalePrediction sp \<and>
                        ScalePrediction_forward tr sp xin = Inr out)
             (filter is_ScalePrediction ls) new"
  using assms
proof (induction ls arbitrary: st)
  case Nil
  then show ?case by simp
next
  case (Cons l ls)
  from Cons.prems obtain st1 where s: "forward_step tr l st = Inr st1"
    and r: "forward_loop tr ls st1 = Inr st'"
    by (auto simp: bindE_eq_Inr)
  from Cons.IH [OF r] obtain new where n: "outputs st' = outputs st1 @ new"
    and a: "list_all2 (\<lambda>l out. \<exists>sp xin. l = LScalePrediction sp \<and>
                        ScalePrediction_forward tr sp xin = Inr out)
             (filter is_ScalePrediction ls) new"
    by blast
  show ?case
  proof (cases "is_ScalePrediction l")
    case True
    with forward_step_outputs [OF s] obtain sp out where "l = LScalePrediction sp"
      "ScalePrediction_forward tr sp (cur st) = Inr out" "outputs st1 = outputs st @ [out]"
      by auto
    with n a True show ?thesis
      by (intro exI [of _ "out # new"]) auto
  next
    case False
    with forward_step_outputs [OF s] have "outputs st1 = outputs st" by simp
    with n a False show ?thesis by auto
  qed
qed

subsection \<open>The outputs of the forward pass\<close>

text \<open>
  C2. A valid shape is \<open>(n, c, 32 h, 32 w)\<close> with \<open>c\<close> the network's \<open>in_channels\<close>,
  at least one, \<open>h\<close> and \<open>w\<close> positive, and, in training mode, more than one value per
  channel at the coarsest scale. On it \<^verbatim>\<open>forward\<close> returns a list of exactly three tensors, of shapes
  \<open>(n, 3, h, w, nc + 5)\<close>, \<open>(n, 3, 2 h, 2 w, nc + 5)\<close> and \<open>(n, 3, 4 h, 4 w, nc + 5)\<close>.
  The layers hold exactly three prediction heads, one per "S" entry of
  \<open>model_config\<close> and in that order (512, 256 and 128 input channels). Whenever
  \<^verbatim>\<open>forward\<close> returns, on any input, its outputs correspond one to one and in order to
  these heads, each output being what its head returned.
\<close>

theorem forward_returns_three_outputs:
  assumes "1 \<le> h" "1 \<le> w" "tr \<longrightarrow> n * h * w \<noteq> 1" "1 \<le> c"
  shows "forward (YOLOv3_net_init c nc tr) [n, c, 32 * h, 32 * w] =
           Inr [[n, 3, h, w, nc + 5], [n, 3, 2 * h, 2 * w, nc + 5],
                [n, 3, 4 * h, 4 * w, nc + 5]]
       \<and> filter is_ScalePrediction (layers (YOLOv3_net_init c nc tr)) =
           [LScalePrediction (ScalePrediction_init 512 nc),
            LScalePrediction (ScalePrediction_init 256 nc),
            LScalePrediction (ScalePrediction_init 128 nc)]
       \<and> length (filter (\<lambda>e. e = Str ''S'') model_config) = 3
       \<and> (\<forall>x outs. forward (YOLOv3_net_init c nc tr) x = Inr outs \<longrightarrow>
            length outs = 3 \<and>
            list_all2 (\<lambda>l out. \<exists>sp xin. l = LScalePrediction sp \<and>
                         ScalePrediction_forward tr sp xin = Inr out)
              (filter is_ScalePrediction (layers (YOLOv3_net_init c nc tr))) outs)"
proof (intro conjI allI impI)
  let ?m = "YOLOv3_net_init c nc tr"
  have L: "layers ?m = create_conv_layers c nc" and T: "training ?m = tr"
    by (simp_all add: YOLOv3_net_init_def)
  have ok: "bn_ok tr n h w"
    using assms(3) by (simp add: bn_ok_def)
  show "forward ?m [n, c, 32 * h, 32 * w] =
           Inr [[n, 3, h, w, nc + 5], [n, 3, 2 * h, 2 * w, nc + 5],
                [n, 3, 4 * h, 4 * w, nc + 5]]"
    by (simp add: forward_def forward_state_valid [OF assms(1) assms(2) ok assms(4)])
  show "filter is_ScalePrediction (layers ?m) =
           [LScalePrediction (ScalePrediction_init 512 nc),
            LScalePrediction (ScalePrediction_init 256 nc),
            LScalePrediction (ScalePrediction_init 128 nc)]"
    unfolding L by (rule layers_heads)
  show "length (filter (\<lambda>e. e = Str ''S'') model_config) = 3"
    by (simp add: model_config_def)
  fix x outs
  assume r: "forward ?m x = Inr outs"
  then obtain st where st: "forward_loop tr (create_conv_layers c nc)
      \<lparr>cur = x, outputs = [], route_connections = []\<rparr> = Inr st" and o: "outs = outputs st"
    by (auto simp: forward_def forward_state_def L T bindE_eq_Inr)
  from forward_loop_outputs [OF st] o
  show a: "list_all2 (\<lambda>l out. \<exists>sp xin. l = LScalePrediction sp \<and>
                         ScalePrediction_forward tr sp xin = Inr out)
              (filter is_ScalePrediction (layers ?m)) outs"
    by (simp add: L)
  from list_all2_lengthD [OF a] show "length outs = 3"
    by (simp add: L layers_heads)
qed

text \<open>The default network (3 input channels, 80 classes) in training mode on a batch of two
  416 x 416 images.\<close>

theorem forward_returns_three_outputs_witness:
  "(1::nat) \<le> 13 \<and> (2::nat) * 13 * 13 \<noteq> 1 \<and> (1::nat) \<le> 3 \<and>
   forward (YOLOv3_net_init 3 80 True) [2, 3, 416, 416] =
     Inr [[2, 3, 13, 13, 85], [2, 3, 26, 26, 85], [2, 3, 52, 52, 85]]"
proof -
  have h: "(1::nat) \<le> 13" "True \<longrightarrow> (2::nat) * 13 * 13 \<noteq> 1"
    by simp_all
  have c: "(1::nat) \<le> 3"
    by simp
  note t = forward_returns_three_outputs [OF h(1) h(1) h(2) c, of 80]
  from t have "forward (YOLOv3_net_init 3 80 True) [2, 3, 32 * 13, 32 * 13] =
      Inr [[2, 3, 13, 13, 80 + 5], [2, 3, 2 * 13, 2 * 13, 80 + 5],
           [2, 3, 4 * 13, 4 * 13, 80 + 5]]"
    by (elim conjE)
  then show ?thesis by simp
qed

subsection \<open>Upsampling and the route connections\<close>

text \<open>
  C3. When the loop reaches an upsample layer with \<open>r\<close> the connection stored last, the
  layer is applied, its result is concatenated with \<open>r\<close> along dimension 1 (the channel
  counts add up), and \<open>r\<close> is removed from the list while the connections stored before
  it stay. A connection is stored only by a residual block with eight repeats, which
  appends its own output; a layer that is neither leaves the list as it is. In the
  network built from \<open>model_config\<close>, on a valid shape (at least one input channel,
  height and width positive multiples of 32), the upsample layer at index 17
  consumes the connection of the second such block (512 channels, stored last) and the
  one at index 24 the connection of the first (256 channels): last in, first out.
\<close>

theorem upsample_concat_lifo:
  assumes "1 \<le> h" "1 \<le> w" "tr \<longrightarrow> n * h * w \<noteq> 1" "1 \<le> c"
  shows "forward_step tr (LUpsample f) \<lparr>cur = x, outputs = outs, route_connections = rs @ [r]\<rparr> =
           bindE (nn_Upsample f x) (\<lambda>u.
           bindE (torch_cat_dim1 u r) (\<lambda>x'.
             Inr \<lparr>cur = x', outputs = outs, route_connections = rs\<rparr>))
       \<and> torch_cat_dim1 (b # ca # sp) (b # cb # sp) = Inr (b # (ca + cb) # sp)
       \<and> (\<forall>blk st st'. forward_step tr (LResidualBlock blk) st = Inr st' \<and> num_repeats blk = 8 \<longrightarrow>
            ResidualBlock_forward tr blk (cur st) = Inr (cur st') \<and>
            route_connections st' = route_connections st @ [cur st'])
       \<and> (\<forall>l st st'. forward_step tr l st = Inr st' \<and> route_op l = Keep \<longrightarrow>
            route_connections st' = route_connections st)
       \<and> create_conv_layers c nc ! 17 = LUpsample 2
       \<and> create_conv_layers c nc ! 24 = LUpsample 2
       \<and> forward_loop tr (take 17 (create_conv_layers c nc))
           \<lparr>cur = [n, c, 32 * h, 32 * w], outputs = [], route_connections = []\<rparr> =
         Inr \<lparr>cur = [n, 256, h, w], outputs = [[n, 3, h, w, nc + 5]],
              route_connections = [[n, 256, 4 * h, 4 * w], [n, 512, 2 * h, 2 * w]]\<rparr>
       \<and> forward_loop tr (take 18 (create_conv_layers c nc))
           \<lparr>cur = [n, c, 32 * h, 32 * w], outputs = [], route_connections = []\<rparr> =
         Inr \<lparr>cur = [n, 256 + 512, 2 * h, 2 * w], outputs = [[n, 3, h, w, nc + 5]],
              route_connections = [[n, 256, 4 * h, 4 * w]]\<rparr>
       \<and> forward_loop tr (take 24 (create_conv_layers c nc))
           \<lparr>cur = [n, c, 32 * h, 32 * w], outputs = [], route_connections = []\<rparr> =
         Inr \<lparr>cur = [n, 128, 2 * h, 2 * w],
              outputs = [[n, 3, h, w, nc + 5], [n, 3, 2 * h, 2 * w, nc + 5]],
              route_connections = [[n, 256, 4 * h, 4 * w]]\<rparr>
       \<and> forward_loop tr (take 25 (create_conv_layers c nc))
           \<lparr>cur = [n, c, 32 * h, 32 * w], outputs = [], route_connections = []\<rparr> =
         Inr \<lparr>cur = [n, 128 + 256, 4 * h, 4 * w],
              outputs = [[n, 3, h, w, nc + 5], [n, 3, 2 * h, 2 * w, nc + 5]],
              route_connections = []\<rparr>"
proof (intro conjI allI impI)
  have ok: "bn_ok tr n h w"
    using assms(3) by (simp add: bn_ok_def)
  note pre = forward_prefix_states [OF assms(1) assms(2) ok assms(4), of nc]
  show "forward_step tr (LUpsample f) \<lparr>cur = x, outputs = outs, route_connections = rs @ [r]\<rparr> =
           bindE (nn_Upsample f x) (\<lambda>u.
           bindE (torch_cat_dim1 u r) (\<lambda>x'.
             Inr \<lparr>cur = x', outputs = outs, route_connections = rs\<rparr>))"
    by simp
  show "torch_cat_dim1 (b # ca # sp) (b # cb # sp) = Inr (b # (ca + cb) # sp)"
    by (simp add: torch_cat_dim1_def)
  show "create_conv_layers c nc ! 17 = LUpsample 2" "create_conv_layers c nc ! 24 = LUpsample 2"
    by (simp_all add: layers_list)
  show "forward_loop tr (take 17 (create_conv_layers c nc))
           \<lparr>cur = [n, c, 32 * h, 32 * w], outputs = [], route_connections = []\<rparr> =
         Inr \<lparr>cur = [n, 256, h, w], outputs = [[n, 3, h, w, nc + 5]],
              route_connections = [[n, 256, 4 * h, 4 * w], [n, 512, 2 * h, 2 * w]]\<rparr>"
    by (rule pre(1))
  show "forward_loop tr (take 18 (create_conv_layers c nc))
           \<lparr>cur = [n, c, 32 * h, 32 * w], outputs = [], route_connections = []\<rparr> =
         Inr \<lparr>cur = [n, 256 + 512, 2 * h, 2 * w], outputs = [[n, 3, h, w, nc + 5]],
              route_connections = [[n, 256, 4 * h, 4 * w]]\<rparr>"
    using pre(2) by simp
  show "forward_loop tr (take 24 (create_conv_layers c nc))
           \<lparr>cur = [n, c, 32 * h, 32 * w], outputs = [], route_connections = []\<rparr> =
         Inr \<lparr>cur = [n, 128, 2 * h, 2 * w],
              outputs = [[n, 3, h, w, nc + 5], [n, 3, 2 * h, 2 * w, nc + 5]],
              route_connections = [[n, 256, 4 * h, 4 * w]]\<rparr>"
    by (rule pre(3))
  show "forward_loop tr (take 25 (create_conv_layers c nc))
           \<lparr>cur = [n, c, 32 * h, 32 * w], outputs = [], route_connections = []\<rparr> =
         Inr \<lparr>cur = [n, 128 + 256, 4 * h, 4 * w],
              outputs = [[n, 3, h, w, nc + 5], [n, 3, 2 * h, 2 * w, nc + 5]],
              route_connections = []\<rparr>"
    using pre(4) by simp
next
  fix blk st st'
  assume a: "forward_step tr (LResidualBlock blk) st = Inr st' \<and> num_repeats blk = 8"
  then show "ResidualBlock_forward tr blk (cur st) = Inr (cur st')"
    by (auto simp: bindE_eq_Inr)
  from a show "route_connections st' = route_connections st @ [cur st']"
    by (auto simp: bindE_eq_Inr)
next
  fix l st st'
  assume "forward_step tr l st = Inr st' \<and> route_op l = Keep"
  then show "route_connections st' = route_connections st"
    using forward_step_route_op [of tr l st st'] by simp
qed

text \<open>The default network in training mode on a batch of two 416 x 416 images: after the
  first upsample layer the tensor has the 256 upsampled channels followed by the 512 of
  the connection stored last, and the connection stored first is still on the list.\<close>

theorem upsample_concat_lifo_witness:
  "(1::nat) \<le> 13 \<and> (2::nat) * 13 * 13 \<noteq> 1 \<and> (1::nat) \<le> 3 \<and>
   forward_loop True (take 18 (create_conv_layers 3 80))
     \<lparr>cur = [2, 3, 416, 416], outputs = [], route_connections = []\<rparr> =
   Inr \<lparr>cur = [2, 768, 26, 26], outputs = [[2, 3, 13, 13, 85]],
        route_connections = [[2, 256, 52, 52]]\<rparr>"
proof -
  have h: "(1::nat) \<le> 13" "True \<longrightarrow> (2::nat) * 13 * 13 \<noteq> 1"
    by simp_all
  have c: "(1::nat) \<le> 3"
    by simp
  note t = upsample_concat_lifo [OF h(1) h(1) h(2) c, where nc = 80 and f = 2
      and x = "[]" and outs = "[]" and rs = "[]" and r = "[]" and b = 0 and ca = 0 and cb = 0
      and sp = "[]"]
  from t have "forward_loop True (take 18 (create_conv_layers 3 80))
           \<lparr>cur = [2, 3, 32 * 13, 32 * 13], outputs = [], route_connections = []\<rparr> =
         Inr \<lparr>cur = [2, 256 + 512, 2 * 13, 2 * 13], outputs = [[2, 3, 13, 13, 80 + 5]],
              route_connections = [[2, 256, 4 * 13, 4 * 13]]\<rparr>"
    by (elim conjE)
  then show ?thesis by simp
qed

subsection \<open>The route connections are balanced\<close>

text \<open>
  C9. For the layers built from \<open>model_config\<close> and every input: \<^verbatim>\<open>forward\<close> never
  raises IndexError; whenever the loop has run up to an upsample layer, the list
  \<open>route_connections\<close> is non-empty there; over the whole list of layers exactly two
  connections are pushed and two popped, the pushes first; each layer that returns
  changes the list as its kind says (push its output, pop the last, or keep); and when
  \<^verbatim>\<open>forward\<close> returns the list is empty.
\<close>

theorem forward_route_connections_balanced:
  "forward_state (YOLOv3_net_init c nc tr) x \<noteq> Inl IndexError
   \<and> forward (YOLOv3_net_init c nc tr) x \<noteq> Inl IndexError
   \<and> (\<forall>pre f post st.
        layers (YOLOv3_net_init c nc tr) = pre @ LUpsample f # post \<and>
        forward_loop tr pre \<lparr>cur = x, outputs = [], route_connections = []\<rparr> = Inr st
        \<longrightarrow> route_connections st \<noteq> [])
   \<and> filter (\<lambda>e. e \<noteq> Keep) (map route_op (layers (YOLOv3_net_init c nc tr)))
        = [Push, Push, Pop, Pop]
   \<and> (\<forall>l st st'. forward_step tr l st = Inr st' \<longrightarrow>
        (case route_op l of
           Push \<Rightarrow> route_connections st' = route_connections st @ [cur st']
         | Pop \<Rightarrow> route_connections st \<noteq> [] \<and>
                  route_connections st' = butlast (route_connections st)
         | Keep \<Rightarrow> route_connections st' = route_connections st))
   \<and> (\<forall>st. forward_state (YOLOv3_net_init c nc tr) x = Inr st \<longrightarrow> route_connections st = [])"
proof (intro conjI allI impI)
  let ?m = "YOLOv3_net_init c nc tr"
  let ?st0 = "\<lparr>cur = x, outputs = [], route_connections = []\<rparr>"
  have L: "layers ?m = create_conv_layers c nc" and T: "training ?m = tr"
    by (simp_all add: YOLOv3_net_init_def)
  show 1: "forward_state ?m x \<noteq> Inl IndexError"
    unfolding forward_state_def L T
    by (rule forward_loop_no_IndexError [OF layers_head_ok, where k = 0])
       (simp add: layers_route_depth)
  then show "forward ?m x \<noteq> Inl IndexError"
    by (auto simp: forward_def bindE_eq_Inl)
  show "filter (\<lambda>e. e \<noteq> Keep) (map route_op (layers ?m)) = [Push, Push, Pop, Pop]"
    unfolding L by (rule layers_route_ops)
  show "route_connections st = []" if "forward_state ?m x = Inr st" for st
    using forward_loop_depth [of tr "create_conv_layers c nc" ?st0 st] that
    by (simp add: forward_state_def L T layers_route_depth)
  show "route_connections st \<noteq> []"
    if h: "layers ?m = pre @ LUpsample f # post \<and> forward_loop tr pre ?st0 = Inr st"
    for pre f post st
  proof -
    from h have e: "create_conv_layers c nc = pre @ LUpsample f # post"
      and r: "forward_loop tr pre ?st0 = Inr st"
      by (simp_all add: L)
    have d: "route_depth pre 0 = Some (length (route_connections st))"
      using forward_loop_depth [OF r] by simp
    have "route_depth (pre @ LUpsample f # post) 0 = Some 0"
      using layers_route_depth [of c nc] by (simp only: e)
    then show ?thesis
      by (auto simp: route_depth_append d split: if_splits)
  qed
  show "case route_op l of
           Push \<Rightarrow> route_connections st' = route_connections st @ [cur st']
         | Pop \<Rightarrow> route_connections st \<noteq> [] \<and>
                  route_connections st' = butlast (route_connections st)
         | Keep \<Rightarrow> route_connections st' = route_connections st"
    if "forward_step tr l st = Inr st'" for l st st'
    using that by (rule forward_step_route_op)
qed

text \<open>The default network in training mode on a batch of two 416 x 416 images: the loop
  reaches the first upsample layer with two connections stored, and returns with none.\<close>

theorem forward_route_connections_balanced_witness:
  "forward_loop True (take 17 (create_conv_layers 3 80))
     \<lparr>cur = [2, 3, 416, 416], outputs = [], route_connections = []\<rparr> =
   Inr \<lparr>cur = [2, 256, 13, 13], outputs = [[2, 3, 13, 13, 85]],
        route_connections = [[2, 256, 52, 52], [2, 512, 26, 26]]\<rparr> \<and>
   forward_state (YOLOv3_net_init 3 80 True) [2, 3, 416, 416] =
   Inr \<lparr>cur = [2, 128, 52, 52],
        outputs = [[2, 3, 13, 13, 85], [2, 3, 26, 26, 85], [2, 3, 52, 52, 85]],
        route_connections = []\<rparr> \<and>
   forward (YOLOv3_net_init 3 80 True) [2, 3, 416, 416] \<noteq> Inl IndexError \<and>
   filter (\<lambda>e. e \<noteq> Keep) (map route_op (layers (YOLOv3_net_init 3 80 True)))
     = [Push, Push, Pop, Pop]"
proof -
  let ?m = "YOLOv3_net_init 3 80 True"
  let ?x = "[2, 3, 416, 416] :: tensor"
  let ?st0 = "\<lparr>cur = ?x, outputs = [], route_connections = []\<rparr>"
  let ?st17 = "\<lparr>cur = [2, 256, 13, 13], outputs = [[2, 3, 13, 13, 85]],
        route_connections = [[2, 256, 52, 52], [2, 512, 26, 26]]\<rparr> :: fwd_state"
  let ?stN = "\<lparr>cur = [2, 128, 52, 52],
        outputs = [[2, 3, 13, 13, 85], [2, 3, 26, 26, 85], [2, 3, 52, 52, 85]],
        route_connections = []\<rparr> :: fwd_state"
  note t = forward_route_connections_balanced [of 3 80 True ?x]
  have ok: "bn_ok True 2 13 13"
    by (simp add: bn_ok_def)
  have p: "forward_loop True (take 17 (create_conv_layers 3 80)) ?st0 = Inr ?st17"
    using forward_prefix_states(1) [of 13 13 True 2 3 80] ok by simp
  have e: "forward_state ?m ?x = Inr ?stN"
    using forward_state_valid [of 13 13 True 2 3 80] ok by simp
  have split: "layers ?m = take 17 (create_conv_layers 3 80) @ LUpsample 2 #
      drop 18 (create_conv_layers 3 80)"
    by (simp add: YOLOv3_net_init_def layers_list)
  from t have a: "\<forall>pre f post st.
        layers ?m = pre @ LUpsample f # post \<and> forward_loop True pre ?st0 = Inr st
        \<longrightarrow> route_connections st \<noteq> []"
    by (elim conjE)
  from t have b: "\<forall>st. forward_state ?m ?x = Inr st \<longrightarrow> route_connections st = []"
    by (elim conjE)
  from t have c: "forward ?m ?x \<noteq> Inl IndexError"
    by (elim conjE)
  from t have d: "filter (\<lambda>e. e \<noteq> Keep) (map route_op (layers ?m)) = [Push, Push, Pop, Pop]"
    by (elim conjE)
  from a split p have "route_connections ?st17 \<noteq> []" by blast
  moreover from b e have "route_connections ?stN = []" by blast
  ultimately show ?thesis using p e c d by simp
qed

section \<open>The hooks\<close>

subsection \<open>The training step\<close>

lemma lookup_loss_fn: "lookup_global ''loss_fn'' = Inl (NameError ''loss_fn'')"
  by (simp add: lookup_global_def module_globals_def)

text \<open>
  C1. The step never reaches the sum of the three losses: the name \<^verbatim>\<open>loss_fn\<close> is not
  bound in the module (the loss is the attribute \<^verbatim>\<open>self.loss_fn\<close>), so on every batch
  the step raises, and on a batch with three targets whose image the network accepts the
  exception is NameError for \<^verbatim>\<open>loss_fn\<close>. Nothing is logged.
\<close>

theorem training_step_raises_NameError:
  "(\<forall>r. training_step call_global add self batch batch_idx \<noteq> Inr r)
   \<and> (\<forall>x y out. batch = (x, y) \<and> 3 \<le> length y \<and> self_call self x = Inr out \<longrightarrow>
        training_step call_global add self batch batch_idx = Inl (NameError ''loss_fn''))"
proof (intro conjI allI impI)
  fix r
  show "training_step call_global add self batch batch_idx \<noteq> Inr r"
    by (auto simp: training_step_def lookup_loss_fn bindE_eq_Inr split: prod.splits)
next
  fix x y out
  assume a: "batch = (x, y) \<and> 3 \<le> length y \<and> self_call self x = Inr out"
  then have "0 < length y" "1 < length y" "2 < length y"
    by arith+
  then have "getitem y 0 = Inr (y ! 0)" "getitem y 1 = Inr (y ! 1)" "getitem y 2 = Inr (y ! 2)"
    by (simp_all only: getitem_def if_True)
  with a show "training_step call_global add self batch batch_idx = Inl (NameError ''loss_fn'')"
    by (simp add: training_step_def lookup_loss_fn)
qed

text \<open>A freshly built default model on a batch of two 416 x 416 images with their three
  targets; the loss function bound to the attribute is not called.\<close>

theorem training_step_raises_NameError_witness:
  "training_step (\<lambda>g out y a. Inr (0::rat)) (+)
     (YOLOv3_init
        \<lparr>SAVE_MODEL = True, CONF_THRESHOLD = 1 / 20, NMS_IOU_THRESH = 9 / 20,
         MAP_IOU_THRESH = 1 / 2, NUM_CLASSES = 80, ANCHORS = []\<rparr>
        [] [] 3 80 [13::nat, 26, 52] (\<lambda>out y a. 1))
     ([2, 3, 416, 416], [[2, 3, 13, 13, 6], [2, 3, 26, 26, 6], [2, 3, 52, 52, 6]]) 0
   = Inl (NameError ''loss_fn'')"
proof -
  let ?self = "YOLOv3_init
        \<lparr>SAVE_MODEL = True, CONF_THRESHOLD = 1 / 20, NMS_IOU_THRESH = 9 / 20,
         MAP_IOU_THRESH = 1 / 2, NUM_CLASSES = 80, ANCHORS = []\<rparr>
        [] [] 3 80 [13::nat, 26, 52] (\<lambda>out y a. 1::rat)"
  let ?x = "[2, 3, 416, 416] :: tensor"
  let ?y = "[[2, 3, 13, 13, 6], [2, 3, 26, 26, 6], [2, 3, 52, 52, 6]] :: tensor list"
  let ?out = "[[2, 3, 13, 13, 85], [2, 3, 26, 26, 85], [2, 3, 52, 52, 85]] :: tensor list"
  have ok: "bn_ok True 2 13 13"
    by (simp add: bn_ok_def)
  have n: "YOLOv3_net.truncate ?self = YOLOv3_net_init 3 80 True"
    by (simp add: YOLOv3_init_def YOLOv3_net_init_def YOLOv3_net.truncate_def)
  have f: "self_call ?self ?x = Inr ?out"
    using forward_state_valid [of 13 13 True 2 3 80] ok
    by (simp add: self_call_def n forward_def)
  have h: "(?x, ?y) = (?x, ?y) \<and> 3 \<le> length ?y \<and> self_call ?self ?x = Inr ?out"
    using f by simp
  from training_step_raises_NameError
    [of "\<lambda>g out y a. Inr (0::rat)" "(+)" ?self "(?x, ?y)" 0]
  have "\<forall>x y out. (?x, ?y) = (x, y) \<and> 3 \<le> length y \<and> self_call ?self x = Inr out \<longrightarrow>
      training_step (\<lambda>g out y a. Inr (0::rat)) (+) ?self (?x, ?y) 0 = Inl (NameError ''loss_fn'')"
    by (elim conjE)
  with h show ?thesis by blast
qed

subsection \<open>The validation hooks\<close>

text \<open>
  C10. For every batch and batch index \<^verbatim>\<open>validation_step\<close> returns \<^verbatim>\<open>None\<close> and leaves
  the object as it was: its layers, its configuration and the trace of what it has
  logged and done are unchanged.
\<close>

theorem validation_step_noop:
  "validation_step self batch batch_idx = ((), self)
   \<and> snd (validation_step self batch batch_idx) = self
   \<and> trace (snd (validation_step self batch batch_idx)) = trace self
   \<and> layers (snd (validation_step self batch batch_idx)) = layers self"
  by (simp add: validation_step_def)

text \<open>A default model on a validation batch of two images.\<close>

theorem validation_step_noop_witness:
  "validation_step
     (YOLOv3_init
        \<lparr>SAVE_MODEL = True, CONF_THRESHOLD = 1 / 20, NMS_IOU_THRESH = 9 / 20,
         MAP_IOU_THRESH = 1 / 2, NUM_CLASSES = 20, ANCHORS = []\<rparr>
        [] [] 3 20 [13::nat, 26, 52] (\<lambda>out y a. 0::rat))
     ([2, 3, 416, 416], [[2, 3, 13, 13, 6], [2, 3, 26, 26, 6], [2, 3, 52, 52, 6]]) 0
   = ((),
      YOLOv3_init
        \<lparr>SAVE_MODEL = True, CONF_THRESHOLD = 1 / 20, NMS_IOU_THRESH = 9 / 20,
         MAP_IOU_THRESH = 1 / 2, NUM_CLASSES = 20, ANCHORS = []\<rparr>
        [] [] 3 20 [13::nat, 26, 52] (\<lambda>out y a. 0::rat))"
  using validation_step_noop
    [of "YOLOv3_init
        \<lparr>SAVE_MODEL = True, CONF_THRESHOLD = 1 / 20, NMS_IOU_THRESH = 9 / 20,
         MAP_IOU_THRESH = 1 / 2, NUM_CLASSES = 20, ANCHORS = []\<rparr>
        [] [] 3 20 [13::nat, 26, 52] (\<lambda>out y a. 0::rat)"
        "([2, 3, 416, 416], [[2, 3, 13, 13, 6], [2, 3, 26, 26, 6], [2, 3, 52, 52, 6]])" 0]
  by (elim conjE)

lemma validation_epoch_end_gate:
  "(epoch mod 10 = 0 \<or> epoch \<in> set [1, 2, 3]) \<longleftrightarrow> (10 dvd epoch \<or> epoch \<in> {1, 2, 3::int})"
  by (auto simp: dvd_eq_mod_eq_0)

text \<open>
  C5. \<^verbatim>\<open>validation_epoch_end\<close> logs under "MAP" if and only if the current epoch is
  divisible by 10 or is 1, 2 or 3. In that case it checks the class accuracy on the test
  loader, computes the mean average precision of the boxes evaluated on the test loader,
  prints it and logs it under "MAP", in this order; in every other epoch it returns the
  object as it was, with nothing added to the trace.
\<close>

theorem validation_epoch_end_map_iff:
  "(list_ex is_Log_MAP (new_events self (validation_epoch_end geb mAP item self))
      \<longleftrightarrow> 10 dvd current_epoch self \<or> current_epoch self \<in> {1, 2, 3})
   \<and> (10 dvd current_epoch self \<or> current_epoch self \<in> {1, 2, 3} \<longrightarrow>
        new_events self (validation_epoch_end geb mAP item self) =
          [CheckClassAccuracy (test_loader self) (CONF_THRESHOLD (cfg self)),
           Print (mAP (fst (geb (test_loader self) (YOLOv3_net.truncate self)
                              (NMS_IOU_THRESH (cfg self)) (ANCHORS (cfg self))
                              (CONF_THRESHOLD (cfg self))))
                      (snd (geb (test_loader self) (YOLOv3_net.truncate self)
                              (NMS_IOU_THRESH (cfg self)) (ANCHORS (cfg self))
                              (CONF_THRESHOLD (cfg self))))
                      (MAP_IOU_THRESH (cfg self)) (NUM_CLASSES (cfg self))),
           Log ''MAP''
                 (item (mAP (fst (geb (test_loader self) (YOLOv3_net.truncate self)
                              (NMS_IOU_THRESH (cfg self)) (ANCHORS (cfg self))
                              (CONF_THRESHOLD (cfg self))))
                      (snd (geb (test_loader self) (YOLOv3_net.truncate self)
                              (NMS_IOU_THRESH (cfg self)) (ANCHORS (cfg self))
                              (CONF_THRESHOLD (cfg self))))
                      (MAP_IOU_THRESH (cfg self)) (NUM_CLASSES (cfg self))))])
   \<and> (\<not> (10 dvd current_epoch self \<or> current_epoch self \<in> {1, 2, 3}) \<longrightarrow>
        validation_epoch_end geb mAP item self = self \<and>
        new_events self (validation_epoch_end geb mAP item self) = [])"
proof (cases "10 dvd current_epoch self \<or> current_epoch self \<in> {1, 2, 3}")
  case True
  then have "current_epoch self mod 10 = 0 \<or> current_epoch self \<in> set [1, 2, 3]"
    using validation_epoch_end_gate [of "current_epoch self"] by blast
  then have "new_events self (validation_epoch_end geb mAP item self) =
          [CheckClassAccuracy (test_loader self) (CONF_THRESHOLD (cfg self)),
           Print (mAP (fst (geb (test_loader self) (YOLOv3_net.truncate self)
                              (NMS_IOU_THRESH (cfg self)) (ANCHORS (cfg self))
                              (CONF_THRESHOLD (cfg self))))
                      (snd (geb (test_loader self) (YOLOv3_net.truncate self)
                              (NMS_IOU_THRESH (cfg self)) (ANCHORS (cfg self))
                              (CONF_THRESHOLD (cfg self))))
                      (MAP_IOU_THRESH (cfg self)) (NUM_CLASSES (cfg self))),
           Log ''MAP''
                 (item (mAP (fst (geb (test_loader self) (YOLOv3_net.truncate self)
                              (NMS_IOU_THRESH (cfg self)) (ANCHORS (cfg self))
                              (CONF_THRESHOLD (cfg self))))
                      (snd (geb (test_loader self) (YOLOv3_net.truncate self)
                              (NMS_IOU_THRESH (cfg self)) (ANCHORS (cfg self))
                              (CONF_THRESHOLD (cfg self))))
                      (MAP_IOU_THRESH (cfg self)) (NUM_CLASSES (cfg self))))]"
    by (simp add: validation_epoch_end_def new_events_def Let_def)
  with True show ?thesis by simp
next
  case False
  then have "\<not> (current_epoch self mod 10 = 0 \<or> current_epoch self \<in> set [1, 2, 3])"
    using validation_epoch_end_gate [of "current_epoch self"] by blast
  then have "validation_epoch_end geb mAP item self = self"
    by (simp add: validation_epoch_end_def Let_def)
  with False show ?thesis by (simp add: new_events_def)
qed

text \<open>A default model whose trainer is at epoch 20 evaluates and logs; at epoch 7 it does
  nothing.\<close>

theorem validation_epoch_end_map_iff_witness:
  "new_events
     (YOLOv3_init
        \<lparr>SAVE_MODEL = True, CONF_THRESHOLD = 1 / 20, NMS_IOU_THRESH = 9 / 20,
         MAP_IOU_THRESH = 1 / 2, NUM_CLASSES = 20, ANCHORS = []\<rparr>
        [] [([2, 3, 416, 416], [])] 3 20 [13::nat, 26, 52] (\<lambda>out y a. 0)
      \<lparr>current_epoch := 20\<rparr>)
     (validation_epoch_end (\<lambda>l m i a t. (length l, num_classes m)) (\<lambda>p t i n. (3::rat) / 4)
       (\<lambda>v. v)
       (YOLOv3_init
        \<lparr>SAVE_MODEL = True, CONF_THRESHOLD = 1 / 20, NMS_IOU_THRESH = 9 / 20,
         MAP_IOU_THRESH = 1 / 2, NUM_CLASSES = 20, ANCHORS = []\<rparr>
        [] [([2, 3, 416, 416], [])] 3 20 [13::nat, 26, 52] (\<lambda>out y a. 0)
      \<lparr>current_epoch := 20\<rparr>))
   = [CheckClassAccuracy [([2, 3, 416, 416], [])] (1 / 20), Print (3 / 4), Log ''MAP'' (3 / 4)]
   \<and> validation_epoch_end (\<lambda>l m i a t. (length l, num_classes m)) (\<lambda>p t i n. (3::rat) / 4)
       (\<lambda>v. v)
       (YOLOv3_init
        \<lparr>SAVE_MODEL = True, CONF_THRESHOLD = 1 / 20, NMS_IOU_THRESH = 9 / 20,
         MAP_IOU_THRESH = 1 / 2, NUM_CLASSES = 20, ANCHORS = []\<rparr>
        [] [([2, 3, 416, 416], [])] 3 20 [13::nat, 26, 52] (\<lambda>out y a. 0)
      \<lparr>current_epoch := 7\<rparr>)
   = YOLOv3_init
        \<lparr>SAVE_MODEL = True, CONF_THRESHOLD = 1 / 20, NMS_IOU_THRESH = 9 / 20,
         MAP_IOU_THRESH = 1 / 2, NUM_CLASSES = 20, ANCHORS = []\<rparr>
        [] [([2, 3, 416, 416], [])] 3 20 [13::nat, 26, 52] (\<lambda>out y a. 0)
      \<lparr>current_epoch := 7\<rparr>"
proof -
  let ?geb = "\<lambda>(l::loader) (m::YOLOv3_net) (i::rat) (a::rat list list list) (t::rat).
                (length l, num_classes m)"
  let ?map = "\<lambda>(p::nat) (t::nat) (i::rat) (n::nat). (3::rat) / 4"
  let ?s = "YOLOv3_init
        \<lparr>SAVE_MODEL = True, CONF_THRESHOLD = 1 / 20, NMS_IOU_THRESH = 9 / 20,
         MAP_IOU_THRESH = 1 / 2, NUM_CLASSES = 20, ANCHORS = []\<rparr>
        [] [([2, 3, 416, 416], [])] 3 20 [13::nat, 26, 52] (\<lambda>out y a. 0::rat)"
  have a: "10 dvd current_epoch (?s\<lparr>current_epoch := 20\<rparr>) \<or>
           current_epoch (?s\<lparr>current_epoch := 20\<rparr>) \<in> {1, 2, 3}"
    by simp
  have b: "\<not> (10 dvd current_epoch (?s\<lparr>current_epoch := 7\<rparr>) \<or>
           current_epoch (?s\<lparr>current_epoch := 7\<rparr>) \<in> {1, 2, 3})"
    by simp
  from validation_epoch_end_map_iff [of "?s\<lparr>current_epoch := 20\<rparr>" ?geb ?map "\<lambda>v. v"] a
  have 1: "new_events (?s\<lparr>current_epoch := 20\<rparr>)
             (validation_epoch_end ?geb ?map (\<lambda>v. v) (?s\<lparr>current_epoch := 20\<rparr>)) =
           [CheckClassAccuracy [([2, 3, 416, 416], [])] (1 / 20), Print (3 / 4),
            Log ''MAP'' (3 / 4)]"
    by (simp add: YOLOv3_init_def)
  from validation_epoch_end_map_iff [of "?s\<lparr>current_epoch := 7\<rparr>" ?geb ?map "\<lambda>v. v"] b
  have 2: "validation_epoch_end ?geb ?map (\<lambda>v. v) (?s\<lparr>current_epoch := 7\<rparr>) = ?s\<lparr>current_epoch := 7\<rparr>"
    by blast
  from 1 2 show ?thesis by simp
qed

subsection \<open>The end of a training epoch\<close>

text \<open>The string that \<open>str_nat\<close> gives consists of decimal digits, and read as a decimal
  numeral it is the number.\<close>

lemma digit_char_cases:
  assumes "d < (10::nat)"
  shows "d \<in> {0, 1, 2, 3, 4, 5, 6, 7, 8, 9}"
  using assms by auto

lemma digit_char_value: "d < 10 \<Longrightarrow> of_char (digit_char d) = (48 + d :: nat)"
  by (drule digit_char_cases) (auto simp: digit_char_def)

lemma digit_char_digit: "d < 10 \<Longrightarrow> digit_char d \<in> set ''0123456789''"
  unfolding digit_char_def by (rule nth_mem) simp

lemma str_nat_value: "foldl (\<lambda>a c. 10 * a + (of_char c - 48)) 0 (str_nat n) = n"
proof (induction n rule: str_nat.induct)
  case (1 n)
  show ?case
  proof (cases "n < 10")
    case True
    then show ?thesis
      by (simp add: str_nat.simps [of n] digit_char_value)
  next
    case False
    with 1 have "foldl (\<lambda>a c. 10 * a + (of_char c - 48)) 0 (str_nat (n div 10)) = n div 10"
      by simp
    with False show ?thesis
      by (simp add: str_nat.simps [of n] digit_char_value)
  qed
qed

lemma str_nat_digits: "set (str_nat n) \<subseteq> set ''0123456789''"
proof (induction n rule: str_nat.induct)
  case (1 n)
  show ?case
  proof (cases "n < 10")
    case True
    then show ?thesis
      using digit_char_digit [of n] by (simp add: str_nat.simps [of n])
  next
    case False
    with 1 have "set (str_nat (n div 10)) \<subseteq> set ''0123456789''" by simp
    with False digit_char_digit [of "n mod 10"] show ?thesis
      by (simp add: str_nat.simps [of n])
  qed
qed

text \<open>
  C6. \<^verbatim>\<open>training_epoch_end\<close> saves a checkpoint if and only if \<^verbatim>\<open>config.SAVE_MODEL\<close>
  is set; the file is named \<^verbatim>\<open>checkpoint_\<close>, the current epoch in decimal,
  \<^verbatim>\<open>.pth.tar\<close>. In either case the last thing it does is to check the class accuracy
  on the training loader, and it does nothing else.
\<close>

theorem training_epoch_end_checkpoint_iff:
  "new_events self (training_epoch_end self) =
     (if SAVE_MODEL (cfg self)
      then [SaveCheckpoint (''checkpoint_'' @ str_int (current_epoch self) @ ''.pth.tar'')]
      else [])
     @ [CheckClassAccuracy (train_loader self) (CONF_THRESHOLD (cfg self))]
   \<and> (list_ex is_SaveCheckpoint (new_events self (training_epoch_end self))
        \<longleftrightarrow> SAVE_MODEL (cfg self))
   \<and> last (new_events self (training_epoch_end self)) =
        CheckClassAccuracy (train_loader self) (CONF_THRESHOLD (cfg self))
   \<and> trace (training_epoch_end self) = trace self @ new_events self (training_epoch_end self)"
  by (simp add: training_epoch_end_def new_events_def Let_def checkpoint_filename_def)

text \<open>With \<^verbatim>\<open>SAVE_MODEL\<close> set, at epoch 12 the checkpoint is
  \<^verbatim>\<open>checkpoint_12.pth.tar\<close>; with it unset only the accuracy check happens.\<close>

theorem training_epoch_end_checkpoint_iff_witness:
  "new_events
     (YOLOv3_init
        \<lparr>SAVE_MODEL = True, CONF_THRESHOLD = 1 / 20, NMS_IOU_THRESH = 9 / 20,
         MAP_IOU_THRESH = 1 / 2, NUM_CLASSES = 20, ANCHORS = []\<rparr>
        [([2, 3, 416, 416], [])] [] 3 20 [13::nat, 26, 52] (\<lambda>out y a. 0::rat)
      \<lparr>current_epoch := 12\<rparr>)
     (training_epoch_end
       (YOLOv3_init
        \<lparr>SAVE_MODEL = True, CONF_THRESHOLD = 1 / 20, NMS_IOU_THRESH = 9 / 20,
         MAP_IOU_THRESH = 1 / 2, NUM_CLASSES = 20, ANCHORS = []\<rparr>
        [([2, 3, 416, 416], [])] [] 3 20 [13::nat, 26, 52] (\<lambda>out y a. 0::rat)
      \<lparr>current_epoch := 12\<rparr>))
   = [SaveCheckpoint ''checkpoint_12.pth.tar'',
      CheckClassAccuracy [([2, 3, 416, 416], [])] (1 / 20)]
   \<and> new_events
     (YOLOv3_init
        \<lparr>SAVE_MODEL = False, CONF_THRESHOLD = 1 / 20, NMS_IOU_THRESH = 9 / 20,
         MAP_IOU_THRESH = 1 / 2, NUM_CLASSES = 20, ANCHORS = []\<rparr>
        [([2, 3, 416, 416], [])] [] 3 20 [13::nat, 26, 52] (\<lambda>out y a. 0::rat)
      \<lparr>current_epoch := 12\<rparr>)
     (training_epoch_end
       (YOLOv3_init
        \<lparr>SAVE_MODEL = False, CONF_THRESHOLD = 1 / 20, NMS_IOU_THRESH = 9 / 20,
         MAP_IOU_THRESH = 1 / 2, NUM_CLASSES = 20, ANCHORS = []\<rparr>
        [([2, 3, 416, 416], [])] [] 3 20 [13::nat, 26, 52] (\<lambda>out y a. 0::rat)
      \<lparr>current_epoch := 12\<rparr>))
   = [CheckClassAccuracy [([2, 3, 416, 416], [])] (1 / 20)]"
proof -
  let ?s = "\<lambda>save. YOLOv3_init
        \<lparr>SAVE_MODEL = save, CONF_THRESHOLD = 1 / 20, NMS_IOU_THRESH = 9 / 20,
         MAP_IOU_THRESH = 1 / 2, NUM_CLASSES = 20, ANCHORS = []\<rparr>
        [([2, 3, 416, 416], [])] [] 3 20 [13::nat, 26, 52] (\<lambda>out y a. 0::rat)
      \<lparr>current_epoch := 12\<rparr>"
  have n: "str_int 12 = ''12''"
    by code_simp
  from training_epoch_end_checkpoint_iff [of "?s True"]
  have 1: "new_events (?s True) (training_epoch_end (?s True)) =
      [SaveCheckpoint ''checkpoint_12.pth.tar'',
       CheckClassAccuracy [([2, 3, 416, 416], [])] (1 / 20)]"
    by (simp add: YOLOv3_init_def n)
  from training_epoch_end_checkpoint_iff [of "?s False"]
  have 2: "new_events (?s False) (training_epoch_end (?s False)) =
      [CheckClassAccuracy [([2, 3, 416, 416], [])] (1 / 20)]"
    by (simp add: YOLOv3_init_def)
  from 1 2 show ?thesis by simp
qed

subsection \<open>The optimizer and the scheduler\<close>

lemma module_parameters_layers:
  "layers self = create_conv_layers c nc \<Longrightarrow> module_parameters self \<noteq> []"
  by (simp add: module_parameters_def layers_list)

text \<open>
  C7, as amended. For a model with a non-empty parameter list (every model built from
  \<open>model_config\<close> has one) whose training loader holds at least one batch,
  \<^verbatim>\<open>configure_optimizers\<close> returns one Adam optimizer over the model's parameters
  with learning rate \<open>10\<^sup>-\<^sup>5\<close> and weight decay \<open>10\<^sup>-\<^sup>4\<close>, and one OneCycleLR scheduler
  over that optimizer with maximal rate \<open>10\<^sup>-\<^sup>3\<close>, as many steps per epoch as the
  training loader has batches, 40 epochs, division factor 100 and a warm-up share of
  \<open>5 / 40\<close>, that is one eighth. With an empty training loader it raises ValueError.
\<close>

theorem configure_optimizers_result:
  assumes "train_loader self \<noteq> []" "module_parameters self \<noteq> []"
  shows "configure_optimizers self =
           Inr ([Adam (module_parameters self) (1 / 100000) (1 / 10000)],
                [OneCycleLR (Adam (module_parameters self) (1 / 100000) (1 / 10000)) (1 / 1000)
                   (length (train_loader self)) 40 100 (1 / 8)])
       \<and> module_parameters
            (YOLOv3_init config trl tel in_ch n_classes anchors yolo_loss) \<noteq> []
       \<and> configure_optimizers (self\<lparr>train_loader := []\<rparr>) = Inl ValueError"
proof (intro conjI)
  show "configure_optimizers self =
           Inr ([Adam (module_parameters self) (1 / 100000) (1 / 10000)],
                [OneCycleLR (Adam (module_parameters self) (1 / 100000) (1 / 10000)) (1 / 1000)
                   (length (train_loader self)) 40 100 (1 / 8)])"
    using assms
    by (simp add: configure_optimizers_def optim_Adam_def lr_scheduler_OneCycleLR_def)
  show "module_parameters (YOLOv3_init config trl tel in_ch n_classes anchors yolo_loss) \<noteq> []"
    by (rule module_parameters_layers [of _ in_ch n_classes]) (simp add: YOLOv3_init_def)
  have "module_parameters (self\<lparr>train_loader := []\<rparr>) = module_parameters self"
    by (simp add: module_parameters_def)
  with assms(2) show "configure_optimizers (self\<lparr>train_loader := []\<rparr>) = Inl ValueError"
    by (simp add: configure_optimizers_def optim_Adam_def lr_scheduler_OneCycleLR_def)
qed

text \<open>A default model whose training loader has two batches.\<close>

theorem configure_optimizers_result_witness:
  "configure_optimizers
     (YOLOv3_init
        \<lparr>SAVE_MODEL = True, CONF_THRESHOLD = 1 / 20, NMS_IOU_THRESH = 9 / 20,
         MAP_IOU_THRESH = 1 / 2, NUM_CLASSES = 20, ANCHORS = []\<rparr>
        [([2, 3, 416, 416], []), ([2, 3, 416, 416], [])] [] 3 20 [13::nat, 26, 52]
        (\<lambda>out y a. 0::rat))
   = Inr ([Adam (filter has_parameters (create_conv_layers 3 20)) (1 / 100000) (1 / 10000)],
          [OneCycleLR (Adam (filter has_parameters (create_conv_layers 3 20))
                         (1 / 100000) (1 / 10000))
             (1 / 1000) 2 40 100 (1 / 8)])"
proof -
  let ?self = "YOLOv3_init
        \<lparr>SAVE_MODEL = True, CONF_THRESHOLD = 1 / 20, NMS_IOU_THRESH = 9 / 20,
         MAP_IOU_THRESH = 1 / 2, NUM_CLASSES = 20, ANCHORS = []\<rparr>
        [([2, 3, 416, 416], []), ([2, 3, 416, 416], [])] [] 3 20 [13::nat, 26, 52]
        (\<lambda>out y a. 0::rat)"
  have l: "train_loader ?self \<noteq> []"
    by (simp add: YOLOv3_init_def)
  have q: "module_parameters ?self \<noteq> []"
    by (rule module_parameters_layers [of _ 3 20]) (simp add: YOLOv3_init_def)
  from configure_optimizers_result [OF l q, THEN conjunct1]
  have "configure_optimizers ?self =
           Inr ([Adam (module_parameters ?self) (1 / 100000) (1 / 10000)],
                [OneCycleLR (Adam (module_parameters ?self) (1 / 100000) (1 / 10000)) (1 / 1000)
                   (length (train_loader ?self)) 40 100 (1 / 8)])" .
  then show ?thesis
    by (simp add: module_parameters_def YOLOv3_init_def)
qed

text \<open>
  C7 as stated fails: with an empty training loader \<^verbatim>\<open>len(self.train_loader)\<close> is 0 and
  the scheduler's constructor raises.
\<close>

theorem configure_optimizers_counterexample:
  "configure_optimizers
     (YOLOv3_init
        \<lparr>SAVE_MODEL = True, CONF_THRESHOLD = 1 / 20, NMS_IOU_THRESH = 9 / 20,
         MAP_IOU_THRESH = 1 / 2, NUM_CLASSES = 20, ANCHORS = []\<rparr>
        [] [] 3 20 [13::nat, 26, 52] (\<lambda>out y a. 0::rat))
   = Inl ValueError"
  by (simp add: configure_optimizers_def optim_Adam_def lr_scheduler_OneCycleLR_def
        module_parameters_def YOLOv3_init_def layers_list)

end
